theory Spec2Isabelle
  imports Complex_Main "HOL-Library.AList" "HOL-Library.Sublist"
begin

section \<open>Restaurant recommendation pipeline (app.py)\<close>

text \<open>
  A shallow embedding of \<^verbatim>\<open>load_and_clean_data\<close>, its nested \<^verbatim>\<open>categorize_cost\<close>,
  \<^verbatim>\<open>filter_and_rank_restaurants\<close> and the part of \<^verbatim>\<open>main\<close> that stores the filtered
  frame and re-ranks it.

  Modelling conventions.
  \<^item> A pandas DataFrame is a number of rows and an ordered association list of columns;
    a column is a dtype tag and its cells. Rows are positions; the row labels are the
    unique labels \<^verbatim>\<open>read_csv\<close> assigns, which row selection keeps.
  \<^item> A cell is a missing value (NaN), a number or a string. Numbers are exact rationals:
    the rounding of binary floating point and the infinities are not represented.
  \<^item> Strings are lists of 8-bit characters, read as the code points 0..255 that the
    \<^verbatim>\<open>latin1\<close> decoding of the file produces.
  \<^item> Every exception the source can raise is a value; the functions of pandas and of the
    Python library whose definition is not part of the repository (the number parsers,
    the regular expression compiler, the order \<^verbatim>\<open>sort_values\<close> gives to ties, number
    formatting, \<^verbatim>\<open>read_csv\<close>) are the fields of a record the model takes as a parameter.
  \<^item> Column labels are assumed pairwise distinct where a column is read by its label
    (a frame whose renaming makes two labels equal is outside the model).
\<close>

subsection \<open>Python strings\<close>

definition lower_char :: "char \<Rightarrow> char" where
  "lower_char c =
     (let n = (of_char c :: nat)
      in if (65 \<le> n \<and> n \<le> 90) \<or> (192 \<le> n \<and> n \<le> 222 \<and> n \<noteq> 215)
         then char_of (n + 32) else c)"

definition py_lower :: "string \<Rightarrow> string" where
  "py_lower s = map lower_char s"

definition is_space :: "char \<Rightarrow> bool" where
  "is_space c = ((of_char c :: nat) \<in> set [9, 10, 11, 12, 13, 28, 29, 30, 31, 32, 133, 160])"

definition py_strip :: "string \<Rightarrow> string" where
  "py_strip s = rev (dropWhile is_space (rev (dropWhile is_space s)))"

definition first_token :: "string \<Rightarrow> string" where
  \<comment> \<open>\<^verbatim>\<open>x.split(',')[0]\<close>\<close>
  "first_token s = takeWhile (\<lambda>c. c \<noteq> CHR '','') s"

definition remove_commas :: "string \<Rightarrow> string" where
  \<comment> \<open>\<^verbatim>\<open>.str.replace(',', '', regex=False)\<close> on one string\<close>
  "remove_commas s = filter (\<lambda>c. c \<noteq> CHR '','') s"

fun join :: "string \<Rightarrow> string list \<Rightarrow> string" where
  "join sep [] = []"
| "join sep [x] = x"
| "join sep (x # y # ys) = x @ sep @ join sep (y # ys)"

fun split_on :: "char \<Rightarrow> string \<Rightarrow> string list" where
  "split_on d [] = [[]]"
| "split_on d (c # cs) =
     (if c = d then [] # split_on d cs
      else (case split_on d cs of [] \<Rightarrow> [[c]] | w # ws \<Rightarrow> (c # w) # ws))"

subsection \<open>Cells, columns and frames\<close>

datatype cell = Null | Num rat | Str string

datatype dtype = Numeric | Object

type_synonym series = "dtype \<times> cell list"

record dataframe =
  nrows :: nat
  cols :: "(string \<times> series) list"

datatype exn =
    UnicodeDecodeError
  | OtherException string
  | AttributeError
  | KeyError string
  | TypeError
  | ValueError
  | RegexError

datatype pyfloat = NaN | Fin rat

datatype encoding = Latin1 | Iso8859_1

record pylib =
  read_csv :: "string \<Rightarrow> encoding \<Rightarrow> exn + dataframe"
  to_numeric :: "string \<Rightarrow> rat option"
  py_float :: "string \<Rightarrow> pyfloat option"
  re_compile :: "string \<Rightarrow> (string \<Rightarrow> bool) option"
  argsort_desc :: "cell list \<Rightarrow> nat list"
  format_1f :: "rat \<Rightarrow> string"
  str_num :: "rat \<Rightarrow> string"

text \<open>
  The fields of \<open>pylib\<close>:
  \<^item> \<open>read_csv path enc\<close>: \<^verbatim>\<open>pd.read_csv(path, encoding=enc)\<close>, the frame or the exception;
  \<^item> \<open>to_numeric s\<close>: the number \<^verbatim>\<open>pd.to_numeric\<close> reads from the string \<open>s\<close>, \<open>None\<close> where
    \<^verbatim>\<open>errors='coerce'\<close> gives NaN;
  \<^item> \<open>py_float s\<close>: \<^verbatim>\<open>float(s)\<close> on a string, \<open>None\<close> for ValueError;
  \<^item> \<open>re_compile p\<close>: \<^verbatim>\<open>re.compile(p).search\<close> as a predicate, \<open>None\<close> for \<^verbatim>\<open>re.error\<close>; it is
    consulted only for patterns holding a metacharacter other than \<^verbatim>\<open>|\<close>;
  \<^item> \<open>argsort_desc ks\<close>: the row positions in the order \<^verbatim>\<open>sort_values(ascending=False)\<close>
    puts them for the keys \<open>ks\<close> (the default sort is not stable, so ties are left to it);
  \<^item> \<open>format_1f\<close> and \<open>str_num\<close>: \<^verbatim>\<open>f"{x:.1f}"\<close> and \<^verbatim>\<open>str(x)\<close> on a number.
\<close>

definition columns :: "dataframe \<Rightarrow> string list" where
  "columns df = map fst (cols df)"

definition has_column :: "dataframe \<Rightarrow> string \<Rightarrow> bool" where
  \<comment> \<open>\<^verbatim>\<open>c in df.columns\<close>\<close>
  "has_column df c = (c \<in> set (columns df))"

definition column :: "dataframe \<Rightarrow> string \<Rightarrow> series option" where
  \<comment> \<open>\<^verbatim>\<open>df[c]\<close>; \<open>None\<close> stands for KeyError\<close>
  "column df c = map_of (cols df) c"

definition set_column :: "dataframe \<Rightarrow> string \<Rightarrow> series \<Rightarrow> dataframe" where
  \<comment> \<open>\<^verbatim>\<open>df[c] = s\<close>: an existing column is replaced in place, a new one is appended\<close>
  "set_column df c s = df\<lparr>cols := AList.update c s (cols df)\<rparr>"

definition broadcast :: "dataframe \<Rightarrow> dtype \<Rightarrow> cell \<Rightarrow> series" where
  \<comment> \<open>the column a scalar assignment \<^verbatim>\<open>df[c] = v\<close> creates\<close>
  "broadcast df dt v = (dt, replicate (nrows df) v)"

definition cell_at :: "dataframe \<Rightarrow> string \<Rightarrow> nat \<Rightarrow> cell option" where
  \<comment> \<open>the cell of row \<open>i\<close> under the label \<open>c\<close>, when the frame has that column and row\<close>
  "cell_at df c i =
     (case column df c of
        None \<Rightarrow> None
      | Some s \<Rightarrow> (if i < length (snd s) then Some (snd s ! i) else None))"

definition take_rows :: "nat list \<Rightarrow> dataframe \<Rightarrow> dataframe" where
  \<comment> \<open>the frame of the rows at the given positions, in that order\<close>
  "take_rows ps df =
     \<lparr>nrows = length ps,
      cols = map (\<lambda>e. (fst e, fst (snd e), map (\<lambda>i. snd (snd e) ! i) ps)) (cols df)\<rparr>"

definition rename :: "dataframe \<Rightarrow> string \<Rightarrow> string \<Rightarrow> dataframe" where
  \<comment> \<open>\<^verbatim>\<open>df.rename(columns={old: new})\<close>\<close>
  "rename df old new = df\<lparr>cols := map (\<lambda>e. (if fst e = old then new else fst e, snd e)) (cols df)\<rparr>"

definition drop_columns :: "string list \<Rightarrow> dataframe \<Rightarrow> dataframe" where
  "drop_columns cs df = df\<lparr>cols := filter (\<lambda>e. fst e \<notin> set cs) (cols df)\<rparr>"

definition wf_frame :: "dataframe \<Rightarrow> bool" where
  \<comment> \<open>labels are distinct, every column has one cell per row, and a numeric column
      holds no string\<close>
  "wf_frame df =
     (distinct (columns df) \<and>
      list_all (\<lambda>e. length (snd (snd e)) = nrows df \<and>
                    (fst (snd e) = Object \<or> list_all (\<lambda>c. case c of Str s \<Rightarrow> False | _ \<Rightarrow> True) (snd (snd e))))
               (cols df))"

subsection \<open>\<^verbatim>\<open>load_and_clean_data\<close>: mapping the columns\<close>

definition column_map :: "(string \<times> string list) list" where
  "column_map =
     [(''name'', [''Restaurant Name'', ''restaurant_name'', ''name'']),
      (''location'', [''City'', ''Locality'', ''Locality Verbose'', ''Address'', ''location'']),
      (''rating'', [''Aggregate rating'', ''rate'', ''rating'', ''Rating'']),
      (''cost'', [''Average Cost for two'', ''cost_for_two'', ''approx_cost'', ''cost'', ''average_cost'']),
      (''cuisines'', [''Cuisines'', ''cuisine'', ''Cuisine'']),
      (''votes'', [''Votes'', ''votes'', ''vote_count''])]"

definition rename_step ::
  "dataframe \<times> string list \<Rightarrow> string \<times> string list \<Rightarrow> dataframe \<times> string list" where
  \<comment> \<open>one round of the outer loop: the state is the frame and \<^verbatim>\<open>missing_columns\<close>\<close>
  "rename_step st e =
     (case find (has_column (fst st)) (snd e) of
        Some possible_col \<Rightarrow> (rename (fst st) possible_col (fst e), snd st)
      | None \<Rightarrow> (fst st, snd st @ [fst e]))"

definition normalize_columns :: "dataframe \<Rightarrow> dataframe \<times> string list" where
  "normalize_columns df = foldl rename_step (df, []) column_map"

subsection \<open>Duplicates, irrelevant columns, sparse rows\<close>

definition keep_first :: "'a list \<Rightarrow> nat list" where
  \<comment> \<open>the positions whose key did not occur at an earlier position\<close>
  "keep_first ks = filter (\<lambda>i. ks ! i \<notin> set (take i ks)) [0..<length ks]"

definition row_key :: "dataframe \<Rightarrow> string list \<Rightarrow> nat \<Rightarrow> cell list" where
  "row_key df labels i = map (\<lambda>s. snd s ! i) (List.map_filter (column df) labels)"

definition drop_duplicates :: "string list \<Rightarrow> dataframe \<Rightarrow> dataframe" where
  \<comment> \<open>\<^verbatim>\<open>df.drop_duplicates(subset=...)\<close>: the first row of every key stays; two missing
      values count as equal\<close>
  "drop_duplicates labels df =
     take_rows (keep_first (map (row_key df labels) [0..<nrows df])) df"

definition remove_duplicates :: "dataframe \<Rightarrow> dataframe" where
  "remove_duplicates df =
     (let duplicate_cols = filter (has_column df) [''name'', ''location'']
      in if duplicate_cols \<noteq> [] then drop_duplicates duplicate_cols df else df)"

definition columns_to_drop :: "string list" where
  "columns_to_drop =
     [''Restaurant ID'', ''Country Code'', ''Currency'', ''Has Table booking'',
      ''Has Online delivery'', ''Is delivering now'', ''Switch to order menu'',
      ''Price range'', ''Rating color'', ''Rating text'']"

definition non_null_count :: "dataframe \<Rightarrow> nat \<Rightarrow> nat" where
  "non_null_count df i = length (filter (\<lambda>e. snd (snd e) ! i \<noteq> Null) (cols df))"

definition dropna_thresh :: "dataframe \<Rightarrow> dataframe" where
  \<comment> \<open>\<^verbatim>\<open>df.dropna(thresh=len(df.columns) * 0.7)\<close>: a row stays when its count of
      present values is at least seven tenths of the number of columns\<close>
  "dropna_thresh df =
     take_rows (filter (\<lambda>i. 7 * length (cols df) \<le> 10 * non_null_count df i) [0..<nrows df]) df"

subsection \<open>Per-column repairs\<close>

definition to_numeric_cell :: "pylib \<Rightarrow> cell \<Rightarrow> cell" where
  \<comment> \<open>\<^verbatim>\<open>pd.to_numeric(..., errors='coerce')\<close> on one cell\<close>
  "to_numeric_cell L c =
     (case c of
        Str s \<Rightarrow> (case to_numeric L s of None \<Rightarrow> Null | Some x \<Rightarrow> Num x)
      | _ \<Rightarrow> c)"

definition fillna :: "cell \<Rightarrow> cell \<Rightarrow> cell" where
  "fillna v c = (if c = Null then v else c)"

definition handle_rating :: "pylib \<Rightarrow> dataframe \<Rightarrow> dataframe" where
  "handle_rating L df =
     (case column df ''rating'' of
        Some s \<Rightarrow>
          set_column df ''rating''
            (Numeric, map (\<lambda>c. fillna (Num 3) (to_numeric_cell L c)) (snd s))
      | None \<Rightarrow> set_column df ''rating'' (broadcast df Numeric (Num 3)))"

definition numbers :: "cell list \<Rightarrow> rat list" where
  "numbers vs = List.map_filter (\<lambda>c. case c of Num x \<Rightarrow> Some x | _ \<Rightarrow> None) vs"

definition median :: "rat list \<Rightarrow> rat" where
  \<comment> \<open>the median of a non-empty list: the middle value, or the mean of the two middle ones\<close>
  "median xs =
     (let ys = sort xs; n = length ys
      in if odd n then ys ! (n div 2) else (ys ! (n div 2 - 1) + ys ! (n div 2)) / 2)"

definition cost_to_numeric :: "pylib \<Rightarrow> cell \<Rightarrow> cell" where
  \<comment> \<open>\<^verbatim>\<open>astype(str)\<close>, the removal of commas and \<^verbatim>\<open>to_numeric\<close>: a number is printed and
      read back unchanged, a missing value is printed as \<^verbatim>\<open>nan\<close> and read back missing\<close>
  "cost_to_numeric L c =
     (case c of
        Str s \<Rightarrow> to_numeric_cell L (Str (remove_commas s))
      | _ \<Rightarrow> c)"

definition handle_cost :: "pylib \<Rightarrow> dataframe \<Rightarrow> dataframe" where
  "handle_cost L df =
     (case column df ''cost'' of
        Some s \<Rightarrow>
          (let parsed = map (cost_to_numeric L) (snd s);
               cost_median = (if numbers parsed \<noteq> [] then median (numbers parsed) else 500)
           in set_column df ''cost'' (Numeric, map (fillna (Num cost_median)) parsed))
      | None \<Rightarrow> set_column df ''cost'' (broadcast df Numeric (Num 500)))"

definition handle_location :: "dataframe \<Rightarrow> dataframe" where
  "handle_location df =
     (if \<not> has_column df ''location''
      then set_column df ''location'' (broadcast df Object (Str ''Unknown''))
      else df)"

definition fillna_str :: "string \<Rightarrow> series \<Rightarrow> series" where
  \<comment> \<open>\<^verbatim>\<open>.fillna('...')\<close>: a numeric column that had a missing value becomes an object column\<close>
  "fillna_str v s =
     (if Null \<in> set (snd s) then Object else fst s, map (fillna (Str v)) (snd s))"

definition str_map :: "(string \<Rightarrow> string) \<Rightarrow> series \<Rightarrow> exn + series" where
  \<comment> \<open>a method of the \<^verbatim>\<open>.str\<close> accessor: refused on a numeric column; on an object column
      every cell that is not a string becomes missing\<close>
  "str_map f s =
     (if fst s = Numeric then Inl AttributeError
      else Inr (Object, map (\<lambda>c. case c of Str t \<Rightarrow> Str (f t) | _ \<Rightarrow> Null) (snd s)))"

definition handle_cuisines :: "dataframe \<Rightarrow> exn + dataframe" where
  "handle_cuisines df =
     (case column df ''cuisines'' of
        Some s \<Rightarrow>
          (case str_map py_lower (fillna_str ''Unknown'' s) of
             Inl e \<Rightarrow> Inl e
           | Inr s' \<Rightarrow> Inr (set_column df ''cuisines'' s'))
      | None \<Rightarrow> Inr (set_column df ''cuisines'' (broadcast df Object (Str ''Unknown''))))"

definition handle_votes :: "dataframe \<Rightarrow> dataframe" where
  "handle_votes df =
     (if \<not> has_column df ''votes''
      then set_column df ''votes'' (broadcast df Numeric (Num 0))
      else df)"

subsection \<open>Feature engineering\<close>

definition float_of :: "pylib \<Rightarrow> cell \<Rightarrow> pyfloat option" where
  \<comment> \<open>\<^verbatim>\<open>float(cost)\<close>: \<open>None\<close> is the ValueError of a string that is no number\<close>
  "float_of L c =
     (case c of Null \<Rightarrow> Some NaN | Num x \<Rightarrow> Some (Fin x) | Str s \<Rightarrow> py_float L s)"

definition categorize_cost :: "pylib \<Rightarrow> cell \<Rightarrow> string" where
  \<comment> \<open>every comparison with NaN is false, so NaN falls through to the last branch\<close>
  "categorize_cost L cost =
     (case float_of L cost of
        None \<Rightarrow> ''medium''
      | Some NaN \<Rightarrow> ''high''
      | Some (Fin x) \<Rightarrow>
          (if x < 300 then ''low'' else if x < 700 then ''medium'' else ''high''))"

definition apply_cells :: "(cell \<Rightarrow> cell) \<Rightarrow> dtype \<Rightarrow> series \<Rightarrow> series" where
  \<comment> \<open>\<^verbatim>\<open>Series.apply(f)\<close> with results of dtype \<open>dt\<close>; an empty column keeps its dtype\<close>
  "apply_cells f dt s = (if snd s = [] then fst s else dt, map f (snd s))"

definition primary_cuisine_of :: "cell \<Rightarrow> cell" where
  "primary_cuisine_of x =
     (case x of Str s \<Rightarrow> Str (py_strip (first_token s)) | _ \<Rightarrow> Str ''unknown'')"

definition clip :: "cell \<Rightarrow> cell" where
  \<comment> \<open>\<^verbatim>\<open>.clip(1, 5)\<close> on one cell of a numeric column\<close>
  "clip c = (case c of Num x \<Rightarrow> Num (max 1 (min 5 x)) | _ \<Rightarrow> c)"

definition derive_features :: "pylib \<Rightarrow> dataframe \<Rightarrow> exn + dataframe" where
  "derive_features L df =
     (case column df ''cost'' of
        None \<Rightarrow> Inl (KeyError ''cost'')
      | Some cost \<Rightarrow>
          (let df1 = set_column df ''cost_category''
                       (apply_cells (\<lambda>c. Str (categorize_cost L c)) Object cost)
           in case column df1 ''cuisines'' of
                None \<Rightarrow> Inl (KeyError ''cuisines'')
              | Some cuisines \<Rightarrow>
                  (let df2 = set_column df1 ''primary_cuisine''
                               (apply_cells primary_cuisine_of Object cuisines)
                   in case column df2 ''rating'' of
                        None \<Rightarrow> Inl (KeyError ''rating'')
                      | Some rating \<Rightarrow>
                          Inr (set_column df2 ''normalized_rating''
                                 (Numeric, map clip (snd rating))))))"

subsection \<open>\<^verbatim>\<open>load_and_clean_data\<close>\<close>

definition clean :: "pylib \<Rightarrow> dataframe \<Rightarrow> exn + dataframe" where
  \<comment> \<open>everything after the \<^verbatim>\<open>try\<close> statement\<close>
  "clean L df0 =
     (let df1 = fst (normalize_columns df0);
          df2 = remove_duplicates df1;
          df3 = drop_columns columns_to_drop df2;
          df4 = dropna_thresh df3;
          df5 = handle_rating L df4;
          df6 = handle_cost L df5;
          df7 = handle_location df6
      in case handle_cuisines df7 of
           Inl e \<Rightarrow> Inl e
         | Inr df8 \<Rightarrow> derive_features L (handle_votes df8))"

datatype load_result =
    Loaded dataframe
  | ReturnedNone string
  | Raises exn

fun str_exn :: "exn \<Rightarrow> string" where
  "str_exn (OtherException msg) = msg"
| "str_exn (KeyError k) = k"
| "str_exn e = []"

definition cleaned :: "pylib \<Rightarrow> dataframe \<Rightarrow> load_result" where
  "cleaned L df = (case clean L df of Inl e \<Rightarrow> Raises e | Inr df' \<Rightarrow> Loaded df')"

definition load_and_clean_data :: "pylib \<Rightarrow> string \<Rightarrow> load_result" where
  \<comment> \<open>\<open>ReturnedNone msg\<close>: \<^verbatim>\<open>st.error(msg)\<close> was shown and \<^verbatim>\<open>None\<close> returned;
      \<open>Raises e\<close>: the exception \<open>e\<close> left the function\<close>
  "load_and_clean_data L file_path =
     (case read_csv L file_path Latin1 of
        Inr df \<Rightarrow> cleaned L df
      | Inl UnicodeDecodeError \<Rightarrow>
          (case read_csv L file_path Iso8859_1 of
             Inr df \<Rightarrow> cleaned L df
           | Inl e \<Rightarrow> Raises e)
      | Inl e \<Rightarrow> ReturnedNone (''Error loading file: '' @ str_exn e))"

subsection \<open>\<^verbatim>\<open>filter_and_rank_restaurants\<close>: the filter conditions\<close>

definition metachars :: "char list" where
  \<comment> \<open>the characters \<^verbatim>\<open>. ^ $ * + ? { } [ ] \ ( )\<close>, by code point\<close>
  "metachars = map char_of [46, 94, 36, 42, 43, 63, 123, 125, 91, 93, 92, 40, 41 :: nat]"

definition regex_search :: "pylib \<Rightarrow> string \<Rightarrow> (string \<Rightarrow> bool) option" where
  \<comment> \<open>\<^verbatim>\<open>re.compile(pat).search\<close>. A pattern with no metacharacter but \<^verbatim>\<open>|\<close> is an
      alternation of literal strings: it is found where one of them occurs.\<close>
  "regex_search L pat =
     (if list_ex (\<lambda>c. c \<in> set metachars) pat then re_compile L pat
      else Some (\<lambda>s. list_ex (\<lambda>alt. sublist alt s) (split_on CHR ''|'' pat)))"

definition str_contains :: "pylib \<Rightarrow> string \<Rightarrow> series \<Rightarrow> exn + bool list" where
  \<comment> \<open>\<^verbatim>\<open>.str.contains(pat, na=False)\<close>\<close>
  "str_contains L pat s =
     (if fst s = Numeric then Inl AttributeError
      else (case regex_search L pat of
              None \<Rightarrow> Inl RegexError
            | Some m \<Rightarrow> Inr (map (\<lambda>c. case c of Str t \<Rightarrow> m t | _ \<Rightarrow> False) (snd s))))"

definition lower_contains :: "pylib \<Rightarrow> string \<Rightarrow> series \<Rightarrow> exn + bool list" where
  \<comment> \<open>\<^verbatim>\<open>.str.lower().str.contains(pat, na=False)\<close>\<close>
  "lower_contains L pat s =
     (case str_map py_lower s of Inl e \<Rightarrow> Inl e | Inr s' \<Rightarrow> str_contains L pat s')"

definition lower_equals :: "string \<Rightarrow> series \<Rightarrow> exn + bool list" where
  \<comment> \<open>\<^verbatim>\<open>.str.lower() == v\<close>\<close>
  "lower_equals v s =
     (case str_map py_lower s of
        Inl e \<Rightarrow> Inl e
      | Inr s' \<Rightarrow> Inr (map (\<lambda>c. c = Str v) (snd s')))"

definition condition_on ::
  "dataframe \<Rightarrow> string \<Rightarrow> (series \<Rightarrow> exn + bool list) \<Rightarrow> exn + bool list list" where
  \<comment> \<open>\<^verbatim>\<open>if c in df.columns: conditions.append(...)\<close>\<close>
  "condition_on df c test =
     (case column df c of
        None \<Rightarrow> Inr []
      | Some s \<Rightarrow> (case test s of Inl e \<Rightarrow> Inl e | Inr m \<Rightarrow> Inr [m]))"

definition and_then :: "exn + 'a list \<Rightarrow> exn + 'a list \<Rightarrow> exn + 'a list" where
  "and_then a b =
     (case a of
        Inl e \<Rightarrow> Inl e
      | Inr xs \<Rightarrow> (case b of Inl e \<Rightarrow> Inl e | Inr ys \<Rightarrow> Inr (xs @ ys)))"

definition conditions ::
  "pylib \<Rightarrow> dataframe \<Rightarrow> string list \<Rightarrow> string \<Rightarrow> string \<Rightarrow> exn + bool list list" where
  \<comment> \<open>\<open>cuisines\<close> and \<open>location\<close> are the lowercased arguments\<close>
  "conditions L df cuisines budget location =
     and_then (condition_on df ''primary_cuisine'' (lower_contains L (join ''|'' cuisines)))
       (and_then (condition_on df ''cost_category'' (lower_equals (py_lower budget)))
          (condition_on df ''location'' (lower_contains L location)))"

definition kept :: "bool list list \<Rightarrow> nat \<Rightarrow> nat list" where
  \<comment> \<open>the positions that every mask marks, in row order\<close>
  "kept conds n = foldl (\<lambda>ps m. filter (\<lambda>i. m ! i) ps) [0..<n] conds"

definition select_rows :: "bool list list \<Rightarrow> dataframe \<Rightarrow> dataframe" where
  \<comment> \<open>\<^verbatim>\<open>for condition in conditions: filtered_df = filtered_df[condition]\<close>, starting
      from \<open>df\<close>; with no condition the result is \<open>df\<close> itself\<close>
  "select_rows conds df = (if conds = [] then df else take_rows (kept conds (nrows df)) df)"

subsection \<open>Scoring\<close>

fun traverse :: "('a \<Rightarrow> exn + 'b) \<Rightarrow> 'a list \<Rightarrow> exn + 'b list" where
  "traverse f [] = Inr []"
| "traverse f (x # xs) =
     (case f x of
        Inl e \<Rightarrow> Inl e
      | Inr y \<Rightarrow> (case traverse f xs of Inl e \<Rightarrow> Inl e | Inr ys \<Rightarrow> Inr (y # ys)))"

definition mul_cell :: "rat \<Rightarrow> cell \<Rightarrow> exn + cell" where
  \<comment> \<open>one cell of \<^verbatim>\<open>series * w\<close>: NaN stays NaN, a string cannot be multiplied by a float\<close>
  "mul_cell w c = (case c of Null \<Rightarrow> Inr Null | Num x \<Rightarrow> Inr (Num (x * w)) | Str s \<Rightarrow> Inl TypeError)"

definition vote_signal :: "cell \<Rightarrow> exn + cell" where
  \<comment> \<open>\<^verbatim>\<open>lambda x: min(x, 1000) / 1000 if pd.notnull(x) else 0\<close>\<close>
  "vote_signal x =
     (case x of
        Null \<Rightarrow> Inr (Num 0)
      | Num v \<Rightarrow> Inr (Num (min v 1000 / 1000))
      | Str s \<Rightarrow> Inl TypeError)"

definition add_cells :: "cell \<Rightarrow> cell \<Rightarrow> cell" where
  \<comment> \<open>one cell of the sum of two numeric columns\<close>
  "add_cells a b = (case (a, b) of (Num x, Num y) \<Rightarrow> Num (x + y) | _ \<Rightarrow> Null)"

definition weighted_score :: "dataframe \<Rightarrow> rat \<Rightarrow> rat \<Rightarrow> exn + series" where
  \<comment> \<open>\<^verbatim>\<open>(df['normalized_rating'] * w1) + (df['votes'].apply(...) * w2)\<close>\<close>
  "weighted_score df w1 w2 =
     (case column df ''normalized_rating'' of
        None \<Rightarrow> Inl (KeyError ''normalized_rating'')
      | Some r \<Rightarrow>
          (case traverse (mul_cell w1) (snd r) of
             Inl e \<Rightarrow> Inl e
           | Inr a \<Rightarrow>
               (case column df ''votes'' of
                  None \<Rightarrow> Inl (KeyError ''votes'')
                | Some v \<Rightarrow>
                    (case traverse vote_signal (snd v) of
                       Inl e \<Rightarrow> Inl e
                     | Inr s \<Rightarrow>
                         (case traverse (mul_cell w2) s of
                            Inl e \<Rightarrow> Inl e
                          | Inr b \<Rightarrow> Inr (Numeric, map2 add_cells a b))))))"

definition add_score :: "string \<Rightarrow> dataframe \<Rightarrow> exn + dataframe" where
  \<comment> \<open>\<^verbatim>\<open>filtered_df['score'] = ...\<close> under the selected strategy\<close>
  "add_score strategy df =
     (if strategy = ''A: Rating-heavy''
      then (case weighted_score df (4 / 5) (1 / 5) of
              Inl e \<Rightarrow> Inl e | Inr s \<Rightarrow> Inr (set_column df ''score'' s))
      else (case weighted_score df (1 / 2) (1 / 2) of
              Inl e \<Rightarrow> Inl e | Inr s \<Rightarrow> Inr (set_column df ''score'' s)))"

subsection \<open>Ranking and explanations\<close>

definition sort_by_score :: "pylib \<Rightarrow> dataframe \<Rightarrow> exn + dataframe" where
  \<comment> \<open>\<^verbatim>\<open>df.sort_values(by='score', ascending=False)\<close>\<close>
  "sort_by_score L df =
     (case column df ''score'' of
        None \<Rightarrow> Inl (KeyError ''score'')
      | Some s \<Rightarrow> Inr (take_rows (argsort_desc L (snd s)) df))"

definition head :: "int \<Rightarrow> dataframe \<Rightarrow> dataframe" where
  \<comment> \<open>\<^verbatim>\<open>df.head(n)\<close>: the first \<open>n\<close> rows, or all but the last \<open>-n\<close> when \<open>n\<close> is negative\<close>
  "head n df =
     take_rows [0..<(if 0 \<le> n then min (nat n) (nrows df) else nat (int (nrows df) + n))] df"

definition rating_text :: "pylib \<Rightarrow> cell \<Rightarrow> exn + string" where
  \<comment> \<open>\<^verbatim>\<open>f"{x:.1f}"\<close>\<close>
  "rating_text L c =
     (case c of Null \<Rightarrow> Inr ''nan'' | Num x \<Rightarrow> Inr (format_1f L x) | Str s \<Rightarrow> Inl ValueError)"

definition votes_text :: "pylib \<Rightarrow> cell \<Rightarrow> string" where
  \<comment> \<open>\<^verbatim>\<open>f"{x if pd.notnull(x) else 0}"\<close>\<close>
  "votes_text L c = (case c of Null \<Rightarrow> ''0'' | Num v \<Rightarrow> str_num L v | Str s \<Rightarrow> s)"

definition explanation ::
  "pylib \<Rightarrow> dataframe \<Rightarrow> string list \<Rightarrow> string \<Rightarrow> string \<Rightarrow> nat \<Rightarrow> exn + cell" where
  \<comment> \<open>the text for row \<open>i\<close> of the top_df rows\<close>
  "explanation L top_df cuisines budget strategy i =
     (let matched = ''Matched on '' @ join '', '' cuisines @ '' cuisine'' @
                    (if has_column top_df ''cost_category'' then '', '' @ budget @ '' budget'' else []);
          suffix = '' (Strategy: '' @ strategy @ '')''
      in if has_column top_df ''rating''
         then (case cell_at top_df ''normalized_rating'' i of
                 None \<Rightarrow> Inl (KeyError ''normalized_rating'')
               | Some r \<Rightarrow>
                   (case rating_text L r of
                      Inl e \<Rightarrow> Inl e
                    | Inr rt \<Rightarrow>
                        (case cell_at top_df ''votes'' i of
                           None \<Rightarrow> Inl (KeyError ''votes'')
                         | Some v \<Rightarrow>
                             Inr (Str (matched @ '', and '' @ rt @ '' rating from '' @
                                       votes_text L v @ '' votes'' @ suffix)))))
         else Inr (Str (matched @ suffix)))"

definition add_explanation ::
  "pylib \<Rightarrow> dataframe \<Rightarrow> string list \<Rightarrow> string \<Rightarrow> string \<Rightarrow> exn + dataframe" where
  \<comment> \<open>\<^verbatim>\<open>top_restaurants['explanation'] = top_restaurants.apply(..., axis=1)\<close>; with no
      row the result of \<^verbatim>\<open>apply\<close> is an empty numeric column\<close>
  "add_explanation L top_df cuisines budget strategy =
     (case traverse (explanation L top_df cuisines budget strategy) [0..<nrows top_df] of
        Inl e \<Rightarrow> Inl e
      | Inr es \<Rightarrow>
          Inr (set_column top_df ''explanation'' (if es = [] then Numeric else Object, es)))"

definition rank :: "pylib \<Rightarrow> dataframe \<Rightarrow> string list \<Rightarrow> string \<Rightarrow> string \<Rightarrow> int
    \<Rightarrow> exn + dataframe \<times> dataframe" where
  \<comment> \<open>score, sort, head and explain; the result is \<open>filtered_df\<close> after the assignment of
      its score column, and \<open>top_restaurants\<close>\<close>
  "rank L filtered cuisines budget strategy top_n =
     (case add_score strategy filtered of
        Inl e \<Rightarrow> Inl e
      | Inr scored \<Rightarrow>
          (case sort_by_score L scored of
             Inl e \<Rightarrow> Inl e
           | Inr sorted_df \<Rightarrow>
               (case add_explanation L (head top_n sorted_df) cuisines budget strategy of
                  Inl e \<Rightarrow> Inl e
                | Inr top_df \<Rightarrow> Inr (scored, top_df))))"

definition empty_frame :: dataframe where
  \<comment> \<open>\<^verbatim>\<open>pd.DataFrame()\<close>\<close>
  "empty_frame = \<lparr>nrows = 0, cols = []\<rparr>"

definition filter_and_rank_restaurants ::
  "pylib \<Rightarrow> dataframe option \<Rightarrow> string list \<Rightarrow> string \<Rightarrow> string \<Rightarrow> string \<Rightarrow> int
    \<Rightarrow> exn + dataframe option \<times> dataframe" where
  \<comment> \<open>The result pairs the caller's \<open>df\<close> as the call leaves it with the returned frame.
      Row selection builds a new frame, so with a condition the caller's frame is as it
      was; with no condition \<open>filtered_df\<close> is the caller's frame itself, and the
      assignment of the score column is made to it.\<close>
  "filter_and_rank_restaurants L df cuisines budget location strategy top_n =
     (case df of
        None \<Rightarrow> Inr (None, empty_frame)
      | Some d \<Rightarrow>
          (let cuisines_l = map py_lower cuisines;
               location_l = py_lower location
           in case conditions L d cuisines_l budget location_l of
                Inl e \<Rightarrow> Inl e
              | Inr conds \<Rightarrow>
                  (case rank L (select_rows conds d) cuisines_l budget strategy top_n of
                     Inl e \<Rightarrow> Inl e
                   | Inr (scored, top_df) \<Rightarrow>
                       Inr (Some (if conds \<noteq> [] then d else scored), top_df))))"

subsection \<open>\<^verbatim>\<open>main\<close>: the stored filtered frame\<close>

definition stored_filtered_df ::
  "pylib \<Rightarrow> dataframe \<Rightarrow> string list \<Rightarrow> string \<Rightarrow> string \<Rightarrow> exn + dataframe" where
  \<comment> \<open>what \<^verbatim>\<open>main\<close> puts into \<^verbatim>\<open>st.session_state.filtered_df\<close> after a call of
      \<^verbatim>\<open>filter_and_rank_restaurants\<close>, from the frame \<open>df\<close> as that call left it\<close>
  "stored_filtered_df L df cuisines budget location =
     (case conditions L df (map py_lower cuisines) budget (py_lower location) of
        Inl e \<Rightarrow> Inl e
      | Inr conds \<Rightarrow> Inr (select_rows conds df))"

subsection \<open>\<^verbatim>\<open>main\<close>: the submitted form and the re-rank form\<close>

record session =
  recommendations :: "dataframe option"
  preferences :: "(string list \<times> string \<times> string \<times> string) option"
  filtered_df :: "dataframe option"

definition submit ::
  "pylib \<Rightarrow> session \<Rightarrow> string list \<Rightarrow> string \<Rightarrow> string \<Rightarrow> string \<Rightarrow> exn + session \<times> string list" where
  \<comment> \<open>the branch \<^verbatim>\<open>if submit_button:\<close> of \<^verbatim>\<open>main\<close>: the session state it leaves and the
      messages it shows with \<^verbatim>\<open>st.error\<close> and \<^verbatim>\<open>st.warning\<close>, or the exception that leaves
      \<^verbatim>\<open>main\<close>\<close>
  "submit L ses cuisines budget location strategy =
     (case load_and_clean_data L ''zomato.csv'' of
        Raises e \<Rightarrow> Inl e
      | ReturnedNone msg \<Rightarrow>
          Inr (ses, [msg, ''Failed to load data. Please check the file and try again.''])
      | Loaded df \<Rightarrow>
          (if cuisines \<noteq> [] \<and> budget \<noteq> [] \<and> location \<noteq> []
           then (case filter_and_rank_restaurants L (Some df) cuisines budget location strategy 10 of
                   Inl e \<Rightarrow> Inl e
                 | Inr (df', recs) \<Rightarrow>
                     (case stored_filtered_df L (case df' of None \<Rightarrow> df | Some d \<Rightarrow> d)
                             cuisines budget location of
                        Inl e \<Rightarrow> Inl e
                      | Inr f \<Rightarrow>
                          Inr (\<lparr>recommendations = Some recs,
                                preferences = Some (cuisines, budget, location, strategy),
                                filtered_df = Some f\<rparr>, [])))
           else Inr (ses\<lparr>recommendations := None, filtered_df := None\<rparr>,
                     [''Please provide all preferences (cuisine, budget, location).''])))"

definition rerank ::
  "pylib \<Rightarrow> session \<Rightarrow> string \<Rightarrow> exn + session" where
  \<comment> \<open>the branch \<^verbatim>\<open>if rerank_button:\<close> of \<^verbatim>\<open>main\<close>, reached when recommendations, preferences
      and a filtered frame are stored\<close>
  "rerank L ses new_strategy =
     (case (preferences ses, filtered_df ses) of
        (Some (cuisines, budget, location, strategy), Some f) \<Rightarrow>
          (case filter_and_rank_restaurants L (Some f) cuisines budget location new_strategy 10 of
             Inl e \<Rightarrow> Inl e
           | Inr (f', recs) \<Rightarrow>
               Inr (ses\<lparr>recommendations := Some recs,
                        preferences := Some (cuisines, budget, location, new_strategy),
                        filtered_df := f'\<rparr>))
      | _ \<Rightarrow> Inr ses)"

subsection \<open>Vocabulary of the statements\<close>

definition rect :: "dataframe \<Rightarrow> bool" where
  \<comment> \<open>every column has one cell per row\<close>
  "rect df = list_all (\<lambda>e. length (snd (snd e)) = nrows df) (cols df)"

definition no_strings :: "cell list \<Rightarrow> bool" where
  \<comment> \<open>every cell is a number or missing\<close>
  "no_strings vs = list_all (\<lambda>c. case c of Str s \<Rightarrow> False | _ \<Rightarrow> True) vs"

definition no_numbers :: "cell list \<Rightarrow> bool" where
  \<comment> \<open>every cell is a string or missing\<close>
  "no_numbers vs = list_all (\<lambda>c. case c of Num x \<Rightarrow> False | _ \<Rightarrow> True) vs"

definition non_null_column :: "dataframe \<Rightarrow> string \<Rightarrow> bool" where
  \<comment> \<open>the frame has the column, with a value in every row\<close>
  "non_null_column df c =
     (case column df c of
        None \<Rightarrow> False
      | Some s \<Rightarrow> length (snd s) = nrows df \<and> Null \<notin> set (snd s))"

definition holds_no_number :: "dataframe \<Rightarrow> string \<Rightarrow> bool" where
  \<comment> \<open>the column is absent, or its cells are strings and missing values\<close>
  "holds_no_number df c = (case column df c of None \<Rightarrow> True | Some s \<Rightarrow> no_numbers (snd s))"

definition is_text :: "dataframe \<Rightarrow> string \<Rightarrow> bool" where
  \<comment> \<open>the column is absent or an object column\<close>
  "is_text df c = (case column df c of None \<Rightarrow> True | Some s \<Rightarrow> fst s = Object)"

definition plain :: "string \<Rightarrow> bool" where
  \<comment> \<open>no character of the string is special in a regular expression\<close>
  "plain s = list_all (\<lambda>c. c \<notin> set metachars \<and> c \<noteq> CHR ''|'') s"

definition condition_holds :: "dataframe \<Rightarrow> string \<Rightarrow> nat \<Rightarrow> (string \<Rightarrow> bool) \<Rightarrow> bool" where
  \<comment> \<open>a condition on the lowercased cell of row \<open>i\<close> under \<open>c\<close>: it is skipped when the
      column is absent, and fails on a cell that is no string\<close>
  "condition_holds df c i P =
     (case cell_at df c i of
        None \<Rightarrow> True
      | Some v \<Rightarrow> (case v of Str t \<Rightarrow> P (py_lower t) | _ \<Rightarrow> False))"

definition retained :: "exn + bool list list \<Rightarrow> nat \<Rightarrow> nat \<Rightarrow> bool option" where
  \<comment> \<open>whether row \<open>i\<close> of a frame of \<open>n\<close> rows passes the conditions computed for it;
      \<open>None\<close> when computing them raised\<close>
  "retained r n i = (case r of Inl e \<Rightarrow> None | Inr conds \<Rightarrow> Some (i \<in> set (kept conds n)))"

definition score_at :: "exn + dataframe \<Rightarrow> nat \<Rightarrow> cell option" where
  \<comment> \<open>the score of row \<open>i\<close> in the outcome of \<open>add_score\<close>\<close>
  "score_at r i = (case r of Inl e \<Rightarrow> None | Inr df \<Rightarrow> cell_at df ''score'' i)"

definition vote_part :: "cell \<Rightarrow> rat" where
  \<comment> \<open>the vote signal of a votes cell that is a number or missing\<close>
  "vote_part c = (case c of Num v \<Rightarrow> min v 1000 / 1000 | _ \<Rightarrow> 0)"

definition caller_frame :: "exn + dataframe option \<times> dataframe \<Rightarrow> dataframe option" where
  \<comment> \<open>the caller's frame after a call of \<open>filter_and_rank_restaurants\<close> that returned\<close>
  "caller_frame r = (case r of Inl e \<Rightarrow> None | Inr p \<Rightarrow> fst p)"

definition returned_frame :: "exn + dataframe option \<times> dataframe \<Rightarrow> dataframe option" where
  \<comment> \<open>the frame a call of \<open>filter_and_rank_restaurants\<close> returned\<close>
  "returned_frame r = (case r of Inl e \<Rightarrow> None | Inr p \<Rightarrow> Some (snd p))"

subsection \<open>A library instance and sample frames\<close>

text \<open>
  The concrete instances below are used to run the model. \<open>demo_lib\<close> reads numbers
  written with decimal digits only, compiles no pattern that holds a metacharacter,
  sorts stably, and prints non-negative numbers with the digits they have.
\<close>

definition digit_value :: "char \<Rightarrow> nat option" where
  "digit_value c =
     (let n = (of_char c :: nat) in if 48 \<le> n \<and> n \<le> 57 then Some (n - 48) else None)"

fun digits_value :: "nat \<Rightarrow> string \<Rightarrow> nat option" where
  "digits_value acc [] = Some acc"
| "digits_value acc (c # cs) =
     (case digit_value c of None \<Rightarrow> None | Some d \<Rightarrow> digits_value (10 * acc + d) cs)"

definition read_number :: "string \<Rightarrow> rat option" where
  "read_number s = (if s = [] then None else map_option of_nat (digits_value 0 s))"

fun nat_text :: "nat \<Rightarrow> string" where
  "nat_text n =
     (if n < 10 then [char_of (48 + n)] else nat_text (n div 10) @ [char_of (48 + n mod 10)])"

definition stable_argsort_desc :: "cell list \<Rightarrow> nat list" where
  \<comment> \<open>descending by key, ties in row order, missing keys last\<close>
  "stable_argsort_desc ks =
     sort_key (\<lambda>i. case ks ! i of Num x \<Rightarrow> - x | _ \<Rightarrow> 0)
       (filter (\<lambda>i. ks ! i \<noteq> Null) [0..<length ks])
     @ filter (\<lambda>i. ks ! i = Null) [0..<length ks]"

definition sample_source :: dataframe where
  \<comment> \<open>a small source file: a duplicate record, a cost with a thousands separator, a
      missing rating and a column that cleaning drops\<close>
  "sample_source =
     \<lparr>nrows = 4,
      cols =
        [(''Restaurant Name'', Object,
            [Str ''Pasta Point'', Str ''Spice Hub'', Str ''Spice Hub'', Str ''Curry Leaf'']),
         (''City'', Object,
            [Str ''Bangalore Central'', Str ''Bangalore'', Str ''Bangalore'', Str ''Mysore'']),
         (''Aggregate rating'', Numeric, [Num 4, Num (9 / 2), Num 3, Null]),
         (''Average Cost for two'', Object,
            [Str ''600'', Str ''650'', Str ''900'', Str ''1,250'']),
         (''Cuisines'', Object,
            [Str ''Italian'', Str ''North Indian, Chinese'', Str ''Chinese'', Str ''South Indian'']),
         (''Votes'', Numeric, [Num 150, Num 2000, Num 90, Num 40]),
         (''Currency'', Object, [Str ''Rs'', Str ''Rs'', Str ''Rs'', Str ''Rs''])]\<rparr>"

definition lib_with :: "(string \<Rightarrow> encoding \<Rightarrow> exn + dataframe) \<Rightarrow> pylib" where
  "lib_with reader =
     \<lparr>read_csv = reader,
      to_numeric = read_number,
      py_float = (\<lambda>s. map_option Fin (read_number s)),
      re_compile = (\<lambda>p. None),
      argsort_desc = stable_argsort_desc,
      format_1f = (\<lambda>x. nat_text (nat \<lfloor>x\<rfloor>) @ ''.'' @ nat_text (nat \<lfloor>x * 10\<rfloor> mod 10)),
      str_num = (\<lambda>x. nat_text (nat \<lfloor>x\<rfloor>))\<rparr>"

definition demo_lib :: pylib where
  "demo_lib = lib_with (\<lambda>path enc. Inr sample_source)"


definition sample_cleaned :: dataframe where
  \<comment> \<open>what cleaning makes of \<open>sample_source\<close>\<close>
  "sample_cleaned =
     \<lparr>nrows = 3,
      cols =
        [(''name'', Object, [Str ''Pasta Point'', Str ''Spice Hub'', Str ''Curry Leaf'']),
         (''location'', Object, [Str ''Bangalore Central'', Str ''Bangalore'', Str ''Mysore'']),
         (''rating'', Numeric, [Num 4, Num (9 / 2), Num 3]),
         (''cost'', Numeric, [Num 600, Num 650, Num 1250]),
         (''cuisines'', Object,
            [Str ''italian'', Str ''north indian, chinese'', Str ''south indian'']),
         (''votes'', Numeric, [Num 150, Num 2000, Num 40]),
         (''cost_category'', Object, [Str ''medium'', Str ''medium'', Str ''high'']),
         (''primary_cuisine'', Object,
            [Str ''italian'', Str ''north indian'', Str ''south indian'']),
         (''normalized_rating'', Numeric, [Num 4, Num (9 / 2), Num 3])]\<rparr>"

definition sample_filtered :: dataframe where
  \<comment> \<open>the rows of \<open>sample_cleaned\<close> that pass the cuisines Indian or italian, the budget
      Medium and the location Bangalore\<close>
  "sample_filtered =
     \<lparr>nrows = 2,
      cols =
        [(''name'', Object, [Str ''Pasta Point'', Str ''Spice Hub'']),
         (''location'', Object, [Str ''Bangalore Central'', Str ''Bangalore'']),
         (''rating'', Numeric, [Num 4, Num (9 / 2)]),
         (''cost'', Numeric, [Num 600, Num 650]),
         (''cuisines'', Object, [Str ''italian'', Str ''north indian, chinese'']),
         (''votes'', Numeric, [Num 150, Num 2000]),
         (''cost_category'', Object, [Str ''medium'', Str ''medium'']),
         (''primary_cuisine'', Object, [Str ''italian'', Str ''north indian'']),
         (''normalized_rating'', Numeric, [Num 4, Num (9 / 2)])]\<rparr>"

definition sample_top :: dataframe where
  \<comment> \<open>their ranking under \<^verbatim>\<open>A: Rating-heavy\<close>\<close>
  "sample_top =
     \<lparr>nrows = 2,
      cols =
        [(''name'', Object, [Str ''Spice Hub'', Str ''Pasta Point'']),
         (''location'', Object, [Str ''Bangalore'', Str ''Bangalore Central'']),
         (''rating'', Numeric, [Num (9 / 2), Num 4]),
         (''cost'', Numeric, [Num 650, Num 600]),
         (''cuisines'', Object, [Str ''north indian, chinese'', Str ''italian'']),
         (''votes'', Numeric, [Num 2000, Num 150]),
         (''cost_category'', Object, [Str ''medium'', Str ''medium'']),
         (''primary_cuisine'', Object, [Str ''north indian'', Str ''italian'']),
         (''normalized_rating'', Numeric, [Num (9 / 2), Num 4]),
         (''score'', Numeric, [Num (19 / 5), Num (323 / 100)]),
         (''explanation'', Object,
            [Str ''Matched on indian, italian cuisine, Medium budget, and 4.5 rating from 2000 votes (Strategy: A: Rating-heavy)'',
             Str ''Matched on indian, italian cuisine, Medium budget, and 4.0 rating from 150 votes (Strategy: A: Rating-heavy)''])]\<rparr>"

definition score_sample :: dataframe where
  \<comment> \<open>a frame with none of the three filter columns\<close>
  "score_sample =
     \<lparr>nrows = 2,
      cols = [(''normalized_rating'', Numeric, [Num 5, Num 4]),
              (''votes'', Numeric, [Num 2000, Null])]\<rparr>"

definition name_only_source :: dataframe where
  \<comment> \<open>a source with a name column and no location column\<close>
  "name_only_source =
     \<lparr>nrows = 2,
      cols = [(''Restaurant Name'', Object, [Str ''Spice Hub'', Str ''Spice Hub'']),
              (''Aggregate rating'', Numeric, [Num 4, Num 5])]\<rparr>"

definition name_only_cleaned :: dataframe where
  \<comment> \<open>what cleaning makes of \<open>name_only_source\<close>\<close>
  "name_only_cleaned =
     \<lparr>nrows = 1,
      cols =
        [(''name'', Object, [Str ''Spice Hub'']),
         (''rating'', Numeric, [Num 4]),
         (''cost'', Numeric, [Num 500]),
         (''location'', Object, [Str ''Unknown'']),
         (''cuisines'', Object, [Str ''Unknown'']),
         (''votes'', Numeric, [Num 0]),
         (''cost_category'', Object, [Str ''medium'']),
         (''primary_cuisine'', Object, [Str ''Unknown'']),
         (''normalized_rating'', Numeric, [Num 4])]\<rparr>"

definition no_cuisines_source :: dataframe where
  \<comment> \<open>a source with no cuisines column\<close>
  "no_cuisines_source =
     \<lparr>nrows = 2,
      cols = [(''Restaurant Name'', Object, [Str ''Spice Hub'', Str ''Pasta Point'']),
              (''City'', Object, [Str ''Bangalore'', Str ''Mysore'']),
              (''Votes'', Numeric, [Num 120, Num 45])]\<rparr>"

definition no_name_source :: dataframe where
  \<comment> \<open>a source with no name column and a missing votes value\<close>
  "no_name_source =
     \<lparr>nrows = 2,
      cols = [(''City'', Object, [Str ''Bangalore'', Str ''Mysore'']),
              (''Cuisines'', Object, [Str ''Italian'', Str ''Thai'']),
              (''Votes'', Numeric, [Num 120, Null]),
              (''Aggregate rating'', Numeric, [Num 4, Num (7 / 2)])]\<rparr>"

definition numeric_cuisines_source :: dataframe where
  \<comment> \<open>a source whose cuisines column holds numbers\<close>
  "numeric_cuisines_source =
     \<lparr>nrows = 2,
      cols = [(''Restaurant Name'', Object, [Str ''Spice Hub'', Str ''Pasta Point'']),
              (''Cuisines'', Numeric, [Num 1, Num 2])]\<rparr>"

definition empty_session :: session where
  "empty_session = \<lparr>recommendations = None, preferences = None, filtered_df = None\<rparr>"

section \<open>Properties\<close>

subsection \<open>Frames\<close>

lemma column_set_column:
  "column (set_column df c s) c' = (if c' = c then Some s else column df c')"
  by (simp add: column_def set_column_def update_conv')

lemma nrows_set_column: "nrows (set_column df c s) = nrows df"
  by (simp add: set_column_def)

lemma has_column_iff: "has_column df c \<longleftrightarrow> column df c \<noteq> None"
  by (simp add: has_column_def column_def columns_def map_of_eq_None_iff)

lemma has_column_set_column:
  "has_column (set_column df c s) c' \<longleftrightarrow> c' = c \<or> has_column df c'"
  by (simp add: has_column_iff column_set_column)

lemma column_take_rows:
  "column (take_rows ps df) c =
     map_option (\<lambda>s. (fst s, map (\<lambda>i. snd s ! i) ps)) (column df c)"
proof -
  have "map_of (map (\<lambda>e. (fst e, fst (snd e), map (\<lambda>i. snd (snd e) ! i) ps)) xs) c =
        map_option (\<lambda>s. (fst s, map (\<lambda>i. snd s ! i) ps)) (map_of xs c)" for xs
    by (induction xs) auto
  then show ?thesis
    by (simp add: column_def take_rows_def)
qed

lemma nrows_take_rows: "nrows (take_rows ps df) = length ps"
  by (simp add: take_rows_def)

lemma columns_take_rows: "columns (take_rows ps df) = columns df"
  by (simp add: take_rows_def columns_def comp_def)

lemma has_column_take_rows: "has_column (take_rows ps df) c = has_column df c"
  by (simp add: has_column_def columns_take_rows)

subsection \<open>Cost categories\<close>

text \<open>
  On numbers the thresholds are exact: below 300 is \<^verbatim>\<open>low\<close>, from 300 up to but excluding
  700 is \<^verbatim>\<open>medium\<close>, from 700 on is \<^verbatim>\<open>high\<close>. A string that \<^verbatim>\<open>float\<close> refuses is
  \<^verbatim>\<open>medium\<close>, and a string it reads as a number is treated as that number.
\<close>

lemma categorize_cost_thresholds:
  "(x < 300 \<longrightarrow> categorize_cost L (Num x) = ''low'') \<and>
   (300 \<le> x \<and> x < 700 \<longrightarrow> categorize_cost L (Num x) = ''medium'') \<and>
   (700 \<le> x \<longrightarrow> categorize_cost L (Num x) = ''high'') \<and>
   categorize_cost L (Num (29999 / 100)) = ''low'' \<and>
   categorize_cost L (Num 300) = ''medium'' \<and>
   categorize_cost L (Num (69999 / 100)) = ''medium'' \<and>
   categorize_cost L (Num 700) = ''high'' \<and>
   (py_float L s = None \<longrightarrow> categorize_cost L (Str s) = ''medium'') \<and>
   (py_float L s = Some (Fin y) \<longrightarrow> categorize_cost L (Str s) = categorize_cost L (Num y))"
  by (simp add: categorize_cost_def float_of_def)


subsection \<open>Scores\<close>

lemma traverse_map:
  "(\<And>x. x \<in> set xs \<Longrightarrow> f x = Inr (g x)) \<Longrightarrow> traverse f xs = Inr (map g xs)"
  by (induction xs) auto

lemma traverse_mul_cell:
  "no_strings vs \<Longrightarrow>
   traverse (mul_cell w) vs = Inr (map (\<lambda>c. case c of Num x \<Rightarrow> Num (x * w) | _ \<Rightarrow> Null) vs)"
  by (rule traverse_map) (auto simp: no_strings_def list_all_iff mul_cell_def split: cell.splits)

lemma traverse_vote_signal:
  "no_strings vs \<Longrightarrow> traverse vote_signal vs = Inr (map (\<lambda>c. Num (vote_part c)) vs)"
  by (rule traverse_map) (auto simp: no_strings_def list_all_iff vote_signal_def vote_part_def split: cell.splits)

lemma no_strings_votes: "no_strings (map (\<lambda>c. Num (vote_part c)) vs)"
  by (simp add: no_strings_def list_all_iff)

lemma weighted_score_numeric:
  assumes "column df ''normalized_rating'' = Some (dr, rs)"
      and "column df ''votes'' = Some (dv, vs)"
      and "no_strings rs" and "no_strings vs"
  shows "weighted_score df w1 w2 =
           Inr (Numeric, map2 add_cells (map (\<lambda>c. case c of Num x \<Rightarrow> Num (x * w1) | _ \<Rightarrow> Null) rs)
                               (map (\<lambda>c. Num (vote_part c * w2)) vs))"
  using assms
  by (simp add: weighted_score_def traverse_mul_cell traverse_vote_signal no_strings_votes comp_def)

lemma cell_at_set_column_same:
  "i < length vs \<Longrightarrow> cell_at (set_column df c (dt, vs)) c i = Some (vs ! i)"
  by (simp add: cell_at_def column_set_column)

text \<open>
  Claim C4. In a frame whose normalized ratings and votes hold no string, the score of a
  row with normalized rating \<open>r\<close> is \<open>0.8 * r + 0.2 * vote_signal\<close> under
  \<^verbatim>\<open>A: Rating-heavy\<close> and \<open>0.5 * r + 0.5 * vote_signal\<close> under \<^verbatim>\<open>B: Votes-heavy\<close>, where the
  vote signal is \<open>min(votes, 1000) / 1000\<close> and 0 for a missing votes value; scoring keeps
  every row. The witness holds the example of the specification: rating 5 with 2000 votes
  scores 4.2 and 3.0.
\<close>

theorem score_formula:
  assumes "column df ''normalized_rating'' = Some (dr, rs)"
      and "column df ''votes'' = Some (dv, vs)"
      and "length rs = nrows df" and "length vs = nrows df"
      and "no_strings rs" and "no_strings vs"
      and "i < nrows df" and "rs ! i = Num r"
  shows "score_at (add_score ''A: Rating-heavy'' df) i =
           Some (Num (4 / 5 * r + 1 / 5 * vote_part (vs ! i))) \<and>
         score_at (add_score ''B: Votes-heavy'' df) i =
           Some (Num (1 / 2 * r + 1 / 2 * vote_part (vs ! i))) \<and>
         map_sum id nrows (add_score ''A: Rating-heavy'' df) = Inr (nrows df) \<and>
         map_sum id nrows (add_score ''B: Votes-heavy'' df) = Inr (nrows df) \<and>
         vote_part Null = 0 \<and> vote_part (Num v) = min v 1000 / 1000"
  using assms
  by (simp add: add_score_def weighted_score_numeric score_at_def cell_at_set_column_same
      nrows_set_column add_cells_def vote_part_def)

theorem score_formula_witness:
  "column score_sample ''normalized_rating'' = Some (Numeric, [Num 5, Num 4]) \<and>
   column score_sample ''votes'' = Some (Numeric, [Num 2000, Null]) \<and>
   no_strings [Num 5, Num 4] \<and> no_strings [Num 2000, Null] \<and> nrows score_sample = 2 \<and>
   score_at (add_score ''A: Rating-heavy'' score_sample) 0 = Some (Num (21 / 5)) \<and>
   score_at (add_score ''B: Votes-heavy'' score_sample) 0 = Some (Num 3) \<and>
   score_at (add_score ''A: Rating-heavy'' score_sample) 1 = Some (Num (16 / 5)) \<and>
   score_at (add_score ''B: Votes-heavy'' score_sample) 1 = Some (Num 2) \<and>
   map_sum id nrows (add_score ''A: Rating-heavy'' score_sample) = Inr 2"
proof -
  have c1: "column score_sample ''normalized_rating'' = Some (Numeric, [Num 5, Num 4])"
    and c2: "column score_sample ''votes'' = Some (Numeric, [Num 2000, Null])"
    and n: "nrows score_sample = 2"
    by (simp_all add: score_sample_def column_def)
  have s1: "no_strings [Num 5, Num 4]" and s2: "no_strings [Num 2000, Null]"
    by (simp_all add: no_strings_def)
  from score_formula [OF c1 c2 _ _ s1 s2, of 0 5] score_formula [OF c1 c2 _ _ s1 s2, of 1 4]
  show ?thesis
    using c1 c2 n s1 s2 by (simp add: vote_part_def)
qed

lemma traverse_isl:
  "(\<And>x. isl (f x) = isl (g x)) \<Longrightarrow> isl (traverse f xs) = isl (traverse g xs)"
proof (induction xs)
  case Nil
  then show ?case by simp
next
  case (Cons x xs)
  from Cons.prems have "isl (f x) = isl (g x)" .
  moreover from Cons have "isl (traverse f xs) = isl (traverse g xs)" by simp
  ultimately show ?case
    by (cases "f x"; cases "g x"; cases "traverse f xs"; cases "traverse g xs") auto
qed

lemma explanation_isl:
  "isl (explanation L t cs b s i) = isl (explanation L t cs b s' i)"
  by (simp add: explanation_def Let_def split: option.splits sum.splits)

lemma add_explanation_isl:
  "isl (add_explanation L t cs b s) = isl (add_explanation L t cs b s')"
proof -
  have "isl (traverse (explanation L t cs b s) [0..<nrows t]) =
        isl (traverse (explanation L t cs b s') [0..<nrows t])"
    by (rule traverse_isl) (rule explanation_isl)
  then show ?thesis
    by (auto simp: add_explanation_def split: sum.splits)
qed

lemma add_score_other:
  "strategy \<noteq> ''A: Rating-heavy'' \<Longrightarrow>
   add_score strategy df =
     (case weighted_score df (1 / 2) (1 / 2) of
        Inl e \<Rightarrow> Inl e | Inr s \<Rightarrow> Inr (set_column df ''score'' s))"
  by (simp add: add_score_def)

lemma rank_isl:
  assumes "add_score s f = add_score s' f"
  shows "isl (rank L f cs b s n) = isl (rank L f cs b s' n)"
proof (cases "add_score s' f")
  case (Inl e)
  with assms show ?thesis by (simp add: rank_def)
next
  case (Inr scored)
  show ?thesis
  proof (cases "sort_by_score L scored")
    case (Inl e)
    with Inr assms show ?thesis by (simp add: rank_def)
  next
    case sorted: (Inr sd)
    have "isl (add_explanation L (head n sd) cs b s) = isl (add_explanation L (head n sd) cs b s')"
      by (rule add_explanation_isl)
    with Inr sorted assms show ?thesis
      by (auto simp: rank_def split: sum.splits)
  qed
qed

lemma score_at_votes_heavy:
  assumes "strategy \<noteq> ''A: Rating-heavy''"
      and "column df ''normalized_rating'' = Some (dr, rs)"
      and "column df ''votes'' = Some (dv, vs)"
      and "length rs = nrows df" and "length vs = nrows df"
      and "no_strings rs" and "no_strings vs"
      and "i < nrows df" and "rs ! i = Num r"
  shows "score_at (add_score strategy df) i = Some (Num (1 / 2 * r + 1 / 2 * vote_part (vs ! i)))"
  using assms
  by (simp add: add_score_def weighted_score_numeric score_at_def cell_at_set_column_same
      add_cells_def)

text \<open>
  Claim C10. A strategy that is not exactly \<^verbatim>\<open>A: Rating-heavy\<close> is scored as
  \<^verbatim>\<open>B: Votes-heavy\<close> is: in a frame whose normalized ratings and votes hold no string, the
  score of a row with normalized rating \<open>r\<close> is \<open>0.5 * r + 0.5 * vote_signal\<close>. The call
  fails for such a strategy exactly when it fails for \<^verbatim>\<open>B: Votes-heavy\<close>: no error comes
  from the strategy.
\<close>

theorem unknown_strategy_scores_votes_heavy:
  assumes "strategy \<noteq> ''A: Rating-heavy''"
  shows "add_score strategy df = add_score ''B: Votes-heavy'' df \<and>
         add_score strategy df =
           (case weighted_score df (1 / 2) (1 / 2) of
              Inl e \<Rightarrow> Inl e | Inr s \<Rightarrow> Inr (set_column df ''score'' s)) \<and>
         isl (filter_and_rank_restaurants L d cuisines budget location strategy top_n) =
           isl (filter_and_rank_restaurants L d cuisines budget location ''B: Votes-heavy'' top_n) \<and>
         (column df ''normalized_rating'' = Some (dr, rs) \<and>
          column df ''votes'' = Some (dv, vs) \<and>
          length rs = nrows df \<and> length vs = nrows df \<and>
          no_strings rs \<and> no_strings vs \<and> i < nrows df \<and> rs ! i = Num r \<longrightarrow>
            score_at (add_score strategy df) i =
              Some (Num (1 / 2 * r + 1 / 2 * vote_part (vs ! i))))"
proof -
  have eq: "add_score strategy f = add_score ''B: Votes-heavy'' f" for f
    using assms by (simp add: add_score_def)
  have r: "isl (rank L f cs budget strategy top_n) = isl (rank L f cs budget ''B: Votes-heavy'' top_n)"
    for f cs
    by (rule rank_isl) (rule eq)
  have "isl (filter_and_rank_restaurants L d cuisines budget location strategy top_n) =
      isl (filter_and_rank_restaurants L d cuisines budget location ''B: Votes-heavy'' top_n)"
  proof (cases d)
    case None
    then show ?thesis by (simp add: filter_and_rank_restaurants_def)
  next
    case (Some x)
    show ?thesis
    proof (cases "conditions L x (map py_lower cuisines) budget (py_lower location)")
      case (Inl e)
      with Some show ?thesis by (simp add: filter_and_rank_restaurants_def)
    next
      case (Inr conds)
      from r [of "select_rows conds x" "map py_lower cuisines"] Some Inr show ?thesis
        by (cases "rank L (select_rows conds x) (map py_lower cuisines) budget strategy top_n";
            cases "rank L (select_rows conds x) (map py_lower cuisines) budget ''B: Votes-heavy'' top_n")
           (auto simp: filter_and_rank_restaurants_def)
    qed
  qed
  moreover have "score_at (add_score strategy df) i =
      Some (Num (1 / 2 * r + 1 / 2 * vote_part (vs ! i)))"
    if "column df ''normalized_rating'' = Some (dr, rs)" "column df ''votes'' = Some (dv, vs)"
      "length rs = nrows df" "length vs = nrows df" "no_strings rs" "no_strings vs"
      "i < nrows df" "rs ! i = Num r"
    using assms that by (rule score_at_votes_heavy)
  ultimately show ?thesis
    using eq add_score_other [OF assms] by simp
qed

theorem unknown_strategy_witness:
  "''C: Surprise'' \<noteq> ''A: Rating-heavy'' \<and>
   column score_sample ''normalized_rating'' = Some (Numeric, [Num 5, Num 4]) \<and>
   column score_sample ''votes'' = Some (Numeric, [Num 2000, Null]) \<and>
   no_strings [Num 5, Num 4] \<and> no_strings [Num 2000, Null] \<and> nrows score_sample = 2 \<and>
   add_score ''C: Surprise'' score_sample = add_score ''B: Votes-heavy'' score_sample \<and>
   score_at (add_score ''C: Surprise'' score_sample) 0 = Some (Num 3) \<and>
   score_at (add_score ''C: Surprise'' score_sample) 1 = Some (Num 2) \<and>
   \<not> isl (filter_and_rank_restaurants demo_lib (Some score_sample) [''indian''] ''medium''
           ''bangalore'' ''C: Surprise'' 10)"
proof -
  have ne: "''C: Surprise'' \<noteq> ''A: Rating-heavy''" by simp
  have c1: "column score_sample ''normalized_rating'' = Some (Numeric, [Num 5, Num 4])"
    and c2: "column score_sample ''votes'' = Some (Numeric, [Num 2000, Null])"
    and n: "nrows score_sample = 2"
    by (simp_all add: score_sample_def column_def)
  have s1: "no_strings [Num 5, Num 4]" and s2: "no_strings [Num 2000, Null]"
    by (simp_all add: no_strings_def)
  have l1: "length [Num 5, Num 4] = nrows score_sample"
    and l2: "length [Num 2000, Null] = nrows score_sample"
    and i0: "0 < nrows score_sample" and i1: "1 < nrows score_sample"
    by (simp_all add: n)
  have r0: "[Num 5, Num 4] ! 0 = Num 5" and r1: "[Num 5, Num 4] ! 1 = Num 4"
    by simp_all
  have ok: "\<not> isl (filter_and_rank_restaurants demo_lib (Some score_sample) [''indian'']
                   ''medium'' ''bangalore'' ''B: Votes-heavy'' 10)"
    by code_simp
  note t0 = unknown_strategy_scores_votes_heavy [OF ne, of score_sample demo_lib
      "Some score_sample" "[''indian'']" "''medium''" "''bangalore''" 10 Numeric
      "[Num 5, Num 4]" Numeric "[Num 2000, Null]" 0 5]
  note t1 = unknown_strategy_scores_votes_heavy [OF ne, of score_sample demo_lib
      "Some score_sample" "[''indian'']" "''medium''" "''bangalore''" 10 Numeric
      "[Num 5, Num 4]" Numeric "[Num 2000, Null]" 1 4]
  from t0 have eq: "add_score ''C: Surprise'' score_sample =
      add_score ''B: Votes-heavy'' score_sample"
    by (rule conjunct1)
  from t0 ok have runs: "\<not> isl (filter_and_rank_restaurants demo_lib (Some score_sample)
      [''indian''] ''medium'' ''bangalore'' ''C: Surprise'' 10)"
    by blast
  from t0 c1 c2 l1 l2 s1 s2 i0 r0
  have "score_at (add_score ''C: Surprise'' score_sample) 0 =
      Some (Num (1 / 2 * 5 + 1 / 2 * vote_part ([Num 2000, Null] ! 0)))"
    by blast
  then have sc0: "score_at (add_score ''C: Surprise'' score_sample) 0 = Some (Num 3)"
    by (simp add: vote_part_def)
  from t1 c1 c2 l1 l2 s1 s2 i1 r1
  have "score_at (add_score ''C: Surprise'' score_sample) 1 =
      Some (Num (1 / 2 * 4 + 1 / 2 * vote_part ([Num 2000, Null] ! 1)))"
    by blast
  then have sc1: "score_at (add_score ''C: Surprise'' score_sample) 1 = Some (Num 2)"
    by (simp add: vote_part_def)
  from ne c1 c2 s1 s2 n eq sc0 sc1 runs show ?thesis
    by blast
qed

subsection \<open>Where the code departs from the specification\<close>

text \<open>
  Claim C6 says that no deduplication occurs when one of the columns name and location is
  absent, as the comment above the statement does. The code deduplicates on whichever of
  the two is present: in a source with a name column and no location column, two rows of
  the same name and different ratings are reduced to the first.
\<close>

theorem dedup_with_name_alone:
  "has_column (fst (normalize_columns name_only_source)) ''name'' \<and>
   \<not> has_column (fst (normalize_columns name_only_source)) ''location'' \<and>
   nrows (fst (normalize_columns name_only_source)) = 2 \<and>
   nrows (remove_duplicates (fst (normalize_columns name_only_source))) = 1 \<and>
   map_sum id (\<lambda>df. column df ''rating'') (clean demo_lib name_only_source) =
     Inr (Some (Numeric, [Num 4]))"
  by code_simp

text \<open>
  Claim C7 says that a source with no cuisines column yields the primary cuisine
  \<^verbatim>\<open>unknown\<close> in lower case. The default assigned for an absent column is \<^verbatim>\<open>Unknown\<close>, which
  is not lowercased (the default of a present column is), so the primary cuisine is
  \<^verbatim>\<open>Unknown\<close>.
\<close>

theorem absent_cuisines_primary_cuisine:
  "\<not> has_column (fst (normalize_columns no_cuisines_source)) ''cuisines'' \<and>
   map_sum id (\<lambda>df. column df ''primary_cuisine'') (clean demo_lib no_cuisines_source) =
     Inr (Some (Object, [Str ''Unknown'', Str ''Unknown'']))"
  by code_simp

text \<open>
  Claim C9 says that the caller's frame never carries the score column after a call. With
  none of the three filter columns in the frame, \<^verbatim>\<open>filtered_df\<close> is the caller's frame
  itself and the score column is assigned to it.
\<close>

theorem pass_through_adds_score_to_input:
  "columns score_sample = [''normalized_rating'', ''votes''] \<and>
   map_option columns
     (caller_frame (filter_and_rank_restaurants demo_lib (Some score_sample) [''indian'']
        ''medium'' ''bangalore'' ''A: Rating-heavy'' 10))
     = Some [''normalized_rating'', ''votes'', ''score'']"
  by code_simp

subsection \<open>The cleaned frame\<close>

lemma rect_column: "rect df \<Longrightarrow> column df c = Some s \<Longrightarrow> length (snd s) = nrows df"
  by (auto simp: rect_def column_def list_all_iff dest!: map_of_SomeD)

lemma rect_take_rows: "rect (take_rows ps df)"
  by (simp add: rect_def take_rows_def list_all_iff)

lemma rect_set_column:
  "rect df \<Longrightarrow> length (snd s) = nrows df \<Longrightarrow> rect (set_column df c s)"
proof -
  have "list_all (\<lambda>e. length (snd (snd e)) = n) xs \<Longrightarrow> length (snd s) = n \<Longrightarrow>
        list_all (\<lambda>e. length (snd (snd e)) = n) (AList.update c s xs)" for xs n
    by (induction xs) auto
  then show "rect df \<Longrightarrow> length (snd s) = nrows df \<Longrightarrow> rect (set_column df c s)"
    by (simp add: rect_def set_column_def)
qed

lemma rect_dropna: "rect (dropna_thresh df)"
  by (simp add: dropna_thresh_def rect_take_rows)

lemma fillna_not_null: "v \<noteq> Null \<Longrightarrow> fillna v c \<noteq> Null"
  by (simp add: fillna_def)

lemma handle_rating_props:
  assumes "rect df"
  shows "rect (handle_rating L df)"
    and "nrows (handle_rating L df) = nrows df"
    and "non_null_column (handle_rating L df) ''rating''"
    and "c \<noteq> ''rating'' \<Longrightarrow> column (handle_rating L df) c = column df c"
  using assms
  by (auto simp: handle_rating_def rect_set_column rect_column broadcast_def nrows_set_column
      non_null_column_def column_set_column fillna_def split: option.splits)

lemma handle_cost_props:
  assumes "rect df"
  shows "rect (handle_cost L df)"
    and "nrows (handle_cost L df) = nrows df"
    and "non_null_column (handle_cost L df) ''cost''"
    and "c \<noteq> ''cost'' \<Longrightarrow> column (handle_cost L df) c = column df c"
  using assms
  by (auto simp: handle_cost_def Let_def rect_set_column rect_column broadcast_def nrows_set_column
      non_null_column_def column_set_column fillna_def split: option.splits)


lemma handle_location_props:
  assumes "rect df"
  shows "rect (handle_location df)"
    and "nrows (handle_location df) = nrows df"
    and "has_column (handle_location df) ''location''"
    and "c \<noteq> ''location'' \<Longrightarrow> column (handle_location df) c = column df c"
    and "\<not> has_column df ''location'' \<Longrightarrow>
         column (handle_location df) ''location'' = Some (Object, replicate (nrows df) (Str ''Unknown''))"
  using assms
  by (auto simp: handle_location_def rect_set_column broadcast_def nrows_set_column
      column_set_column has_column_set_column)

lemma handle_votes_props:
  assumes "rect df"
  shows "rect (handle_votes df)"
    and "nrows (handle_votes df) = nrows df"
    and "has_column (handle_votes df) ''votes''"
    and "c \<noteq> ''votes'' \<Longrightarrow> column (handle_votes df) c = column df c"
    and "\<not> has_column df ''votes'' \<Longrightarrow>
         column (handle_votes df) ''votes'' = Some (Numeric, replicate (nrows df) (Num 0))"
  using assms
  by (auto simp: handle_votes_def rect_set_column broadcast_def nrows_set_column
      column_set_column has_column_set_column)

lemma str_map_cells:
  assumes "str_map f s = Inr s'"
  shows "length (snd s') = length (snd s)"
    and "no_numbers (snd s) \<Longrightarrow> Null \<notin> set (snd s) \<Longrightarrow> Null \<notin> set (snd s')"
proof -
  from assms have s': "snd s' = map (\<lambda>c. case c of Str t \<Rightarrow> Str (f t) | _ \<Rightarrow> Null) (snd s)"
    by (auto simp: str_map_def split: if_splits)
  then show "length (snd s') = length (snd s)" by simp
  show "Null \<notin> set (snd s')" if "no_numbers (snd s)" and "Null \<notin> set (snd s)"
  proof
    assume "Null \<in> set (snd s')"
    with s' obtain c where c: "c \<in> set (snd s)"
      and "(case c of Str t \<Rightarrow> Str (f t) | _ \<Rightarrow> Null) = Null"
      by auto
    with that show False
      by (cases c) (auto simp: no_numbers_def list_all_iff)
  qed
qed

lemma fillna_str_cells:
  shows "length (snd (fillna_str v s)) = length (snd s)"
    and "Null \<notin> set (snd (fillna_str v s))"
    and "no_numbers (snd s) \<Longrightarrow> no_numbers (snd (fillna_str v s))"
  by (auto simp: fillna_str_def fillna_def no_numbers_def list_all_iff split: cell.splits)

lemma handle_cuisines_props:
  assumes "rect df" and "handle_cuisines df = Inr df'"
  shows "rect df'"
    and "nrows df' = nrows df"
    and "has_column df' ''cuisines''"
    and "c \<noteq> ''cuisines'' \<Longrightarrow> column df' c = column df c"
    and "(case column df ''cuisines'' of None \<Rightarrow> True | Some s \<Rightarrow> no_numbers (snd s)) \<Longrightarrow>
         non_null_column df' ''cuisines''"
proof -
  obtain s' where df': "df' = set_column df ''cuisines'' s'"
    and len: "length (snd s') = nrows df"
    and nn: "(case column df ''cuisines'' of None \<Rightarrow> True | Some s \<Rightarrow> no_numbers (snd s)) \<Longrightarrow>
             Null \<notin> set (snd s')"
  proof (cases "column df ''cuisines''")
    case None
    with assms(2) have "df' = set_column df ''cuisines'' (broadcast df Object (Str ''Unknown''))"
      by (simp add: handle_cuisines_def)
    then show ?thesis
      by (rule that) (simp_all add: broadcast_def)
  next
    case (Some s)
    with assms(2) obtain s' where s': "str_map py_lower (fillna_str ''Unknown'' s) = Inr s'"
      and df': "df' = set_column df ''cuisines'' s'"
      by (auto simp: handle_cuisines_def split: sum.splits)
    from str_map_cells(1) [OF s'] fillna_str_cells(1) [of "''Unknown''" s] rect_column [OF assms(1) Some]
    have "length (snd s') = nrows df" by simp
    moreover have "Null \<notin> set (snd s')" if "no_numbers (snd s)"
      by (rule str_map_cells(2) [OF s']) (simp_all add: fillna_str_cells that)
    ultimately show ?thesis
      using df' Some by (intro that) simp_all
  qed
  from df' len assms(1) show "rect df'" by (simp add: rect_set_column)
  from df' show "nrows df' = nrows df" by (simp add: nrows_set_column)
  from df' show "has_column df' ''cuisines''" by (simp add: has_column_set_column)
  from df' show "c \<noteq> ''cuisines'' \<Longrightarrow> column df' c = column df c"
    by (simp add: column_set_column)
  from df' len nn
  show "(case column df ''cuisines'' of None \<Rightarrow> True | Some s \<Rightarrow> no_numbers (snd s)) \<Longrightarrow>
        non_null_column df' ''cuisines''"
    by (simp add: non_null_column_def column_set_column nrows_set_column)
qed

lemma derive_features_props:
  assumes "derive_features L df = Inr out"
  shows "nrows out = nrows df"
    and "c \<notin> {''cost_category'', ''primary_cuisine'', ''normalized_rating''} \<Longrightarrow>
         column out c = column df c"
  using assms
  by (auto simp: derive_features_def Let_def column_set_column nrows_set_column
      split: option.splits)

lemma non_null_column_cong:
  "column df' c = column df c \<Longrightarrow> nrows df' = nrows df \<Longrightarrow>
   non_null_column df' c = non_null_column df c"
  by (cases "column df c") (simp_all add: non_null_column_def)

lemma repairs:
  assumes r: "rect df4"
      and c8: "handle_cuisines (handle_location (handle_cost L (handle_rating L df4))) = Inr df8"
      and out: "derive_features L (handle_votes df8) = Inr out"
  shows "nrows out = nrows df4"
    and "non_null_column out ''rating''"
    and "non_null_column out ''cost''"
    and "has_column out ''location''"
    and "has_column out ''cuisines''"
    and "has_column out ''votes''"
    and "has_column out ''name'' = has_column df4 ''name''"
    and "(case column df4 ''cuisines'' of None \<Rightarrow> True | Some s \<Rightarrow> no_numbers (snd s)) \<Longrightarrow>
         non_null_column out ''cuisines''"
    and "\<not> has_column df4 ''location'' \<Longrightarrow>
         column out ''location'' = Some (Object, replicate (nrows out) (Str ''Unknown''))"
    and "\<not> has_column df4 ''votes'' \<Longrightarrow>
         column out ''votes'' = Some (Numeric, replicate (nrows out) (Num 0))"
proof -
  let ?d5 = "handle_rating L df4"
  let ?d6 = "handle_cost L ?d5"
  let ?d7 = "handle_location ?d6"
  let ?d9 = "handle_votes df8"
  note p5 = handle_rating_props [OF r, where L = L]
  note p6 = handle_cost_props [OF p5(1), where L = L]
  note p7 = handle_location_props [OF p6(1)]
  note p8 = handle_cuisines_props [OF p7(1) c8]
  note p9 = handle_votes_props [OF p8(1)]
  note po = derive_features_props [OF out]
  show n: "nrows out = nrows df4"
    by (simp add: po(1) p9(2) p8(2) p7(2) p6(2) p5(2))
  have "non_null_column out ''rating'' = non_null_column ?d5 ''rating''"
    by (rule non_null_column_cong)
       (simp_all add: po p9 p8 p7 p6 p5(2))
  with p5(3) show "non_null_column out ''rating''" by simp
  have "non_null_column out ''cost'' = non_null_column ?d6 ''cost''"
    by (rule non_null_column_cong) (simp_all add: po p9 p8 p7 p6(2))
  with p6(3) show "non_null_column out ''cost''" by simp
  have "column out ''location'' = column ?d7 ''location''"
    by (simp add: po p9 p8)
  with p7(3) show "has_column out ''location''" by (simp add: has_column_iff)
  have cu: "column out ''cuisines'' = column df8 ''cuisines''"
    by (simp add: po p9)
  with p8(3) show "has_column out ''cuisines''" by (simp add: has_column_iff)
  have vo: "column out ''votes'' = column ?d9 ''votes''"
    by (simp add: po)
  with p9(3) show "has_column out ''votes''" by (simp add: has_column_iff)
  have "column out ''name'' = column df4 ''name''"
    by (simp add: po p9 p8 p7 p6 p5)
  then show "has_column out ''name'' = has_column df4 ''name''" by (simp add: has_column_iff)
  have c47: "column ?d7 ''cuisines'' = column df4 ''cuisines''"
    by (simp add: p7 p6 p5)
  show "non_null_column out ''cuisines''"
    if "case column df4 ''cuisines'' of None \<Rightarrow> True | Some s \<Rightarrow> no_numbers (snd s)"
  proof -
    from that c47 have "non_null_column df8 ''cuisines''" by (intro p8(5)) simp
    moreover have "non_null_column out ''cuisines'' = non_null_column df8 ''cuisines''"
      by (rule non_null_column_cong) (simp_all add: cu po(1) p9(2))
    ultimately show ?thesis by simp
  qed
  show "column out ''location'' = Some (Object, replicate (nrows out) (Str ''Unknown''))"
    if "\<not> has_column df4 ''location''"
  proof -
    have "column ?d6 ''location'' = column df4 ''location''" by (simp add: p6 p5)
    with that have "\<not> has_column ?d6 ''location''" by (simp add: has_column_iff)
    from p7(5) [OF this] show ?thesis
      by (simp add: po p9 p8 p7(2) p6(2) p5(2))
  qed
  show "column out ''votes'' = Some (Numeric, replicate (nrows out) (Num 0))"
    if "\<not> has_column df4 ''votes''"
  proof -
    have "column df8 ''votes'' = column df4 ''votes''" by (simp add: p8 p7 p6 p5)
    with that have "\<not> has_column df8 ''votes''" by (simp add: has_column_iff)
    from p9(5) [OF this] show ?thesis
      by (simp add: po p9(2) p8(2) p7(2) p6(2) p5(2))
  qed
qed

lemma rect_rename: "rect (rename df old new) = rect df"
  by (simp add: rect_def rename_def list_all_iff)

lemma rect_rename_step: "rect (fst st) \<Longrightarrow> rect (fst (rename_step st e))"
  by (simp add: rename_step_def rect_rename split: option.splits)

lemma rect_foldl_rename_step: "rect (fst st) \<Longrightarrow> rect (fst (foldl rename_step st xs))"
  by (induction xs arbitrary: st) (simp_all add: rect_rename_step)

lemma rect_normalize_columns: "rect df \<Longrightarrow> rect (fst (normalize_columns df))"
  by (simp add: normalize_columns_def rect_foldl_rename_step)

lemma wf_frame_rect: "wf_frame df \<Longrightarrow> rect df"
  by (simp add: wf_frame_def rect_def list_all_iff)

lemma keep_first_bound: "set (keep_first ks) \<subseteq> {..<length ks}"
  by (auto simp: keep_first_def)

lemma taken_cells:
  assumes "rect df" and "set ps \<subseteq> {..<nrows df}" and "column (take_rows ps df) c = Some t"
  shows "\<exists>s. column df c = Some s \<and> set (snd t) \<subseteq> set (snd s)"
proof -
  from assms(3) obtain s where s: "column df c = Some s"
    and t: "t = (fst s, map (\<lambda>i. snd s ! i) ps)"
    by (auto simp: column_take_rows)
  from rect_column [OF assms(1) s] assms(2) t have "set (snd t) \<subseteq> set (snd s)"
    by auto
  with s show ?thesis by blast
qed

lemma column_drop_columns:
  "column (drop_columns cs df) c = (if c \<in> set cs then None else column df c)"
proof -
  have "map_of (filter (\<lambda>e. fst e \<notin> set cs) xs) c = (if c \<in> set cs then None else map_of xs c)"
    for xs :: "(string \<times> series) list"
    by (induction xs) auto
  then show ?thesis by (simp add: column_def drop_columns_def)
qed

lemma rect_drop_columns: "rect df \<Longrightarrow> rect (drop_columns cs df)"
  by (simp add: rect_def drop_columns_def list_all_iff)

lemma remove_duplicates_props:
  assumes "rect df"
  shows "rect (remove_duplicates df)"
    and "has_column (remove_duplicates df) c = has_column df c"
    and "column (remove_duplicates df) c = Some t \<Longrightarrow>
         \<exists>s. column df c = Some s \<and> set (snd t) \<subseteq> set (snd s)"
proof -
  let ?ps = "keep_first (map (row_key df (filter (has_column df) [''name'', ''location''])) [0..<nrows df])"
  have ps: "set ?ps \<subseteq> {..<nrows df}"
    using keep_first_bound [of "map (row_key df (filter (has_column df) [''name'', ''location''])) [0..<nrows df]"]
    by simp
  have eq: "remove_duplicates df = df \<or> remove_duplicates df = take_rows ?ps df"
    by (simp add: remove_duplicates_def drop_duplicates_def Let_def)
  from eq assms show "rect (remove_duplicates df)"
    by (auto simp: rect_take_rows)
  from eq show "has_column (remove_duplicates df) c = has_column df c"
    by (auto simp: has_column_take_rows)
  show "\<exists>s. column df c = Some s \<and> set (snd t) \<subseteq> set (snd s)"
    if "column (remove_duplicates df) c = Some t"
    using eq
  proof
    assume "remove_duplicates df = df"
    with that show ?thesis by auto
  next
    assume "remove_duplicates df = take_rows ?ps df"
    with that taken_cells [OF assms ps] show ?thesis by simp
  qed
qed

lemma dropna_thresh_props:
  assumes "rect df"
  shows "has_column (dropna_thresh df) c = has_column df c"
    and "column (dropna_thresh df) c = Some t \<Longrightarrow>
         \<exists>s. column df c = Some s \<and> set (snd t) \<subseteq> set (snd s)"
proof -
  show "has_column (dropna_thresh df) c = has_column df c"
    by (simp add: dropna_thresh_def has_column_take_rows)
  show "\<exists>s. column df c = Some s \<and> set (snd t) \<subseteq> set (snd s)"
    if "column (dropna_thresh df) c = Some t"
    by (rule taken_cells [OF assms _ that [unfolded dropna_thresh_def]]) auto
qed

lemma selection_props:
  assumes "rect df1"
  defines "df4 \<equiv> dropna_thresh (drop_columns columns_to_drop (remove_duplicates df1))"
  shows "rect df4"
    and "c \<notin> set columns_to_drop \<Longrightarrow> has_column df4 c = has_column df1 c"
    and "holds_no_number df1 c \<Longrightarrow> holds_no_number df4 c"
proof -
  let ?d2 = "remove_duplicates df1"
  let ?d3 = "drop_columns columns_to_drop ?d2"
  note p2 = remove_duplicates_props [OF assms(1)]
  have r3: "rect ?d3" by (rule rect_drop_columns) (rule p2(1))
  note p4 = dropna_thresh_props [OF r3]
  show "rect df4" by (simp add: df4_def rect_dropna)
  show "has_column df4 c = has_column df1 c" if "c \<notin> set columns_to_drop"
  proof -
    have "has_column df4 c = has_column ?d3 c" by (simp add: df4_def p4(1))
    also from that have "\<dots> = has_column ?d2 c" by (simp add: has_column_iff column_drop_columns)
    also have "\<dots> = has_column df1 c" by (rule p2(2))
    finally show ?thesis .
  qed
  show "holds_no_number df4 c" if h: "holds_no_number df1 c"
  proof (cases "column df4 c")
    case None
    then show ?thesis by (simp add: holds_no_number_def)
  next
    case (Some t)
    then obtain s3 where s3: "column ?d3 c = Some s3" and t3: "set (snd t) \<subseteq> set (snd s3)"
      using p4(2) [of c t] by (auto simp: df4_def)
    from s3 have "column ?d2 c = Some s3"
      by (simp add: column_drop_columns split: if_splits)
    then obtain s1 where s1: "column df1 c = Some s1" and t1: "set (snd s3) \<subseteq> set (snd s1)"
      using p2(3) [of c s3] by auto
    from h s1 have "no_numbers (snd s1)" by (simp add: holds_no_number_def)
    with t3 t1 have "no_numbers (snd t)" by (auto simp: no_numbers_def list_all_iff)
    with Some show ?thesis by (simp add: holds_no_number_def)
  qed
qed

lemma clean_sample_source: "clean demo_lib sample_source = Inr sample_cleaned"
  by code_simp

lemma clean_name_only_source: "clean demo_lib name_only_source = Inr name_only_cleaned"
  by code_simp

text \<open>
  Claim C1 says that every cleaned record has a value for each of name, location, rating,
  cost, cuisines and votes, and that a source with no name column gets the name
  \<^verbatim>\<open>Unknown\<close>. The code assigns no default to name and fills no missing name, location or
  votes cell: a source with no name column is cleaned to a frame with no name column, and
  a missing votes value of the source is still missing after cleaning.
\<close>

theorem name_not_defaulted:
  "map_sum id (\<lambda>df. (column df ''name'', column df ''votes'')) (clean demo_lib no_name_source) =
     Inr (None, Some (Numeric, [Num 120, Null]))"
  by code_simp

text \<open>
  Claim C1 as amended. For a well-formed source whose labels stay distinct under the
  renaming, a cleaned frame has a rating and a cost in every row; it has the columns
  location, cuisines and votes; it has a name column exactly when the renamed source has
  one; its cuisines column has a value in every row when the source column is absent or
  holds no number; and a location or votes column the source lacks is the default
  \<^verbatim>\<open>Unknown\<close> or 0 in every row.
\<close>

theorem cleaned_fields:
  assumes "wf_frame src"
      and "distinct (columns (fst (normalize_columns src)))"
      and "clean L src = Inr out"
  shows "non_null_column out ''rating'' \<and> non_null_column out ''cost'' \<and>
         has_column out ''location'' \<and> has_column out ''cuisines'' \<and> has_column out ''votes'' \<and>
         has_column out ''name'' = has_column (fst (normalize_columns src)) ''name'' \<and>
         (holds_no_number (fst (normalize_columns src)) ''cuisines'' \<longrightarrow>
            non_null_column out ''cuisines'') \<and>
         (\<not> has_column (fst (normalize_columns src)) ''location'' \<longrightarrow>
            column out ''location'' = Some (Object, replicate (nrows out) (Str ''Unknown''))) \<and>
         (\<not> has_column (fst (normalize_columns src)) ''votes'' \<longrightarrow>
            column out ''votes'' = Some (Numeric, replicate (nrows out) (Num 0)))"
proof -
  let ?d1 = "fst (normalize_columns src)"
  let ?d4 = "dropna_thresh (drop_columns columns_to_drop (remove_duplicates ?d1))"
  have r1: "rect ?d1"
    using assms(1) by (simp add: wf_frame_rect rect_normalize_columns)
  note sel = selection_props [OF r1]
  from assms(3) obtain df8 where
    c8: "handle_cuisines (handle_location (handle_cost L (handle_rating L ?d4))) = Inr df8"
    and out: "derive_features L (handle_votes df8) = Inr out"
    by (auto simp: clean_def Let_def split: sum.splits)
  note rep = repairs [OF sel(1) c8 out]
  have keep: "has_column ?d4 c = has_column ?d1 c"
    if "c \<in> {''name'', ''location'', ''votes''}" for c
    using that by (intro sel(2)) (auto simp: columns_to_drop_def)
  have cu: "holds_no_number ?d1 ''cuisines'' \<Longrightarrow>
      (case column ?d4 ''cuisines'' of None \<Rightarrow> True | Some s \<Rightarrow> no_numbers (snd s))"
    using sel(3) [of "''cuisines''"] by (simp add: holds_no_number_def)
  from rep(2-6) rep(7) rep(8) [OF cu] rep(9) rep(10) keep show ?thesis
    by simp
qed

theorem cleaned_fields_witness:
  "wf_frame sample_source \<and>
   distinct (columns (fst (normalize_columns sample_source))) \<and>
   clean demo_lib sample_source = Inr sample_cleaned \<and>
   holds_no_number (fst (normalize_columns sample_source)) ''cuisines'' \<and>
   non_null_column sample_cleaned ''rating'' \<and>
   non_null_column sample_cleaned ''cost'' \<and>
   non_null_column sample_cleaned ''cuisines'' \<and>
   has_column sample_cleaned ''name'' \<and>
   wf_frame name_only_source \<and>
   distinct (columns (fst (normalize_columns name_only_source))) \<and>
   clean demo_lib name_only_source = Inr name_only_cleaned \<and>
   \<not> has_column (fst (normalize_columns name_only_source)) ''location'' \<and>
   \<not> has_column (fst (normalize_columns name_only_source)) ''votes'' \<and>
   column name_only_cleaned ''location'' = Some (Object, [Str ''Unknown'']) \<and>
   column name_only_cleaned ''votes'' = Some (Numeric, [Num 0])"
proof -
  note c1 = clean_sample_source and c2 = clean_name_only_source
  have w1: "wf_frame sample_source" by code_simp
  have d1: "distinct (columns (fst (normalize_columns sample_source)))" by code_simp
  have h1: "holds_no_number (fst (normalize_columns sample_source)) ''cuisines''" by code_simp
  have n1: "has_column (fst (normalize_columns sample_source)) ''name''" by code_simp
  have w2: "wf_frame name_only_source" by code_simp
  have d2: "distinct (columns (fst (normalize_columns name_only_source)))" by code_simp
  have l2: "\<not> has_column (fst (normalize_columns name_only_source)) ''location''" by code_simp
  have v2: "\<not> has_column (fst (normalize_columns name_only_source)) ''votes''" by code_simp
  have r2: "nrows name_only_cleaned = 1" by (simp add: name_only_cleaned_def)
  from cleaned_fields [OF w1 d1 c1] cleaned_fields [OF w2 d2 c2]
  show ?thesis
    using w1 d1 c1 h1 n1 w2 d2 c2 l2 v2 r2 by simp
qed

subsection \<open>Load failures\<close>

text \<open>
  Claim C5 says that a load failure after the retry is the only fatal condition of the
  pipeline. A source that is read at the first attempt can still stop the pipeline:
  with a cuisines column of numbers, \<^verbatim>\<open>.str.lower()\<close> raises AttributeError inside
  \<^verbatim>\<open>load_and_clean_data\<close>, and the exception leaves \<^verbatim>\<open>main\<close>.
\<close>

theorem load_failure_not_only_fatal:
  "read_csv (lib_with (\<lambda>path enc. Inr numeric_cuisines_source)) ''zomato.csv'' Latin1 =
     Inr numeric_cuisines_source \<and>
   load_and_clean_data (lib_with (\<lambda>path enc. Inr numeric_cuisines_source)) ''zomato.csv'' =
     Raises AttributeError \<and>
   submit (lib_with (\<lambda>path enc. Inr numeric_cuisines_source)) empty_session
     [''indian''] ''medium'' ''Bangalore'' ''A: Rating-heavy'' = Inl AttributeError"
  by code_simp

text \<open>
  Claim C5 as amended. When the first read raises UnicodeDecodeError, the file is read
  once more under the alternate encoding and the outcome of that read decides: its frame
  is cleaned, or its exception leaves \<^verbatim>\<open>load_and_clean_data\<close> and \<^verbatim>\<open>main\<close>, so that no later
  stage runs and nothing is returned. Any other exception of the first read is not
  retried: it is shown as \<^verbatim>\<open>Error loading file: ...\<close>, \<^verbatim>\<open>None\<close> is returned, and \<^verbatim>\<open>main\<close>
  shows its own message and leaves the session as it was.
\<close>

theorem decode_failure_is_retried_once:
  "(read_csv L path Latin1 = Inl UnicodeDecodeError \<longrightarrow>
      load_and_clean_data L path =
        (case read_csv L path Iso8859_1 of Inr df \<Rightarrow> cleaned L df | Inl e \<Rightarrow> Raises e)) \<and>
   (read_csv L path Latin1 = Inl UnicodeDecodeError \<and> read_csv L path Iso8859_1 = Inl e \<longrightarrow>
      load_and_clean_data L path = Raises e) \<and>
   (read_csv L ''zomato.csv'' Latin1 = Inl UnicodeDecodeError \<and>
    read_csv L ''zomato.csv'' Iso8859_1 = Inl e \<longrightarrow>
      submit L ses cuisines budget location strategy = Inl e) \<and>
   (read_csv L path Latin1 = Inl e' \<and> e' \<noteq> UnicodeDecodeError \<longrightarrow>
      load_and_clean_data L path = ReturnedNone (''Error loading file: '' @ str_exn e')) \<and>
   (read_csv L ''zomato.csv'' Latin1 = Inl e' \<and> e' \<noteq> UnicodeDecodeError \<longrightarrow>
      submit L ses cuisines budget location strategy =
        Inr (ses, [''Error loading file: '' @ str_exn e',
                   ''Failed to load data. Please check the file and try again.'']))"
  by (cases e') (auto simp: load_and_clean_data_def submit_def)

theorem decode_failure_witness:
  "read_csv (lib_with (\<lambda>path enc. Inl UnicodeDecodeError)) ''zomato.csv'' Latin1 = Inl UnicodeDecodeError \<and>
   read_csv (lib_with (\<lambda>path enc. Inl UnicodeDecodeError)) ''zomato.csv'' Iso8859_1 = Inl UnicodeDecodeError \<and>
   load_and_clean_data (lib_with (\<lambda>path enc. Inl UnicodeDecodeError)) ''zomato.csv'' = Raises UnicodeDecodeError \<and>
   submit (lib_with (\<lambda>path enc. Inl UnicodeDecodeError)) empty_session [''indian''] ''medium''
     ''Bangalore'' ''A: Rating-heavy'' = Inl UnicodeDecodeError \<and>
   read_csv (lib_with (\<lambda>path enc. Inl (OtherException ''No such file''))) ''zomato.csv'' Latin1 =
     Inl (OtherException ''No such file'') \<and>
   OtherException ''No such file'' \<noteq> UnicodeDecodeError \<and>
   load_and_clean_data (lib_with (\<lambda>path enc. Inl (OtherException ''No such file''))) ''zomato.csv'' =
     ReturnedNone ''Error loading file: No such file'' \<and>
   submit (lib_with (\<lambda>path enc. Inl (OtherException ''No such file''))) empty_session [''indian'']
     ''medium'' ''Bangalore'' ''A: Rating-heavy'' =
     Inr (empty_session, [''Error loading file: No such file'',
                          ''Failed to load data. Please check the file and try again.''])"
proof -
  let ?A = "lib_with (\<lambda>path enc. Inl UnicodeDecodeError)"
  let ?B = "lib_with (\<lambda>path enc. Inl (OtherException ''No such file''))"
  have a: "read_csv ?A ''zomato.csv'' Latin1 = Inl UnicodeDecodeError"
    "read_csv ?A ''zomato.csv'' Iso8859_1 = Inl UnicodeDecodeError"
    by (simp_all add: lib_with_def)
  have b: "read_csv ?B ''zomato.csv'' Latin1 = Inl (OtherException ''No such file'')"
    by (simp add: lib_with_def)
  from decode_failure_is_retried_once [of ?A "''zomato.csv''" UnicodeDecodeError empty_session
      "[''indian'']" "''medium''" "''Bangalore''" "''A: Rating-heavy''" "OtherException ''No such file''"]
    decode_failure_is_retried_once [of ?B "''zomato.csv''" UnicodeDecodeError empty_session
      "[''indian'']" "''medium''" "''Bangalore''" "''A: Rating-heavy''" "OtherException ''No such file''"]
    a b
  show ?thesis by simp
qed

subsection \<open>The filter stage\<close>

lemma foldl_filter_mem:
  "i \<in> set (foldl (\<lambda>ps m. filter (\<lambda>i. m ! i) ps) ps0 conds) \<longleftrightarrow>
   i \<in> set ps0 \<and> list_all (\<lambda>m. m ! i) conds"
  by (induction conds arbitrary: ps0) auto

lemma kept_iff: "i \<in> set (kept conds n) \<longleftrightarrow> i < n \<and> list_all (\<lambda>m. m ! i) conds"
  by (simp add: kept_def foldl_filter_mem)

lemma split_on_no_delim: "d \<notin> set x \<Longrightarrow> split_on d x = [x]"
  by (induction x) (auto split: list.splits)

lemma split_on_append: "d \<notin> set x \<Longrightarrow> split_on d (x @ d # rest) = x # split_on d rest"
  by (induction x) (auto split: list.splits)

lemma split_on_join:
  "xs \<noteq> [] \<Longrightarrow> list_all (\<lambda>x. d \<notin> set x) xs \<Longrightarrow> split_on d (join [d] xs) = xs"
  by (induction "[d]" xs rule: join.induct) (simp_all add: split_on_no_delim split_on_append)

lemma set_join: "set (join sep xs) \<subseteq> set sep \<union> \<Union> (set ` set xs)"
  by (induction sep xs rule: join.induct) auto

lemma bar_no_metachar: "CHR ''|'' \<notin> set metachars"
  by code_simp


lemma plain_no_metachar: "plain s \<Longrightarrow> \<not> list_ex (\<lambda>c. c \<in> set metachars) s"
  by (auto simp: plain_def list_all_iff list_ex_iff)

lemma plain_no_bar: "plain s \<Longrightarrow> CHR ''|'' \<notin> set s"
  by (auto simp: plain_def list_all_iff)

lemma regex_search_plain:
  assumes "plain p"
  shows "regex_search L p = Some (\<lambda>s. sublist p s)"
  using plain_no_metachar [OF assms] plain_no_bar [OF assms]
  by (simp add: regex_search_def split_on_no_delim)

lemma regex_search_alternation:
  assumes "cs \<noteq> []" and "list_all plain cs"
  shows "regex_search L (join ''|'' cs) = Some (\<lambda>s. list_ex (\<lambda>alt. sublist alt s) cs)"
proof -
  have "\<not> list_ex (\<lambda>c. c \<in> set metachars) (join ''|'' cs)"
  proof
    assume "list_ex (\<lambda>c. c \<in> set metachars) (join ''|'' cs)"
    then obtain c where c: "c \<in> set (join ''|'' cs)" and m: "c \<in> set metachars"
      by (auto simp: list_ex_iff)
    from c set_join [of "''|''" cs] have "c = CHR ''|'' \<or> (\<exists>x\<in>set cs. c \<in> set x)"
      by auto
    with m assms(2) bar_no_metachar show False
      by (auto simp: plain_def list_all_iff)
  qed
  moreover have "split_on CHR ''|'' (join ''|'' cs) = cs"
    using assms plain_no_bar by (intro split_on_join) (auto simp: list_all_iff)
  ultimately show ?thesis
    by (simp add: regex_search_def)
qed

lemma lower_contains_text:
  assumes "fst s = Object" and "regex_search L pat = Some m"
  shows "lower_contains L pat s =
           Inr (map (\<lambda>c. case c of Str t \<Rightarrow> m (py_lower t) | _ \<Rightarrow> False) (snd s))"
  using assms
  by (auto simp: lower_contains_def str_map_def str_contains_def split: cell.splits)

lemma lower_equals_text:
  assumes "fst s = Object"
  shows "lower_equals v s =
           Inr (map (\<lambda>c. case c of Str t \<Rightarrow> py_lower t = v | _ \<Rightarrow> False) (snd s))"
  using assms
  by (auto simp: lower_equals_def str_map_def split: cell.splits)

lemma condition_on_mask:
  assumes "rect df" and "is_text df c" and "i < nrows df"
      and test: "\<And>s. fst s = Object \<Longrightarrow>
                 test s = Inr (map (\<lambda>c. case c of Str t \<Rightarrow> P (py_lower t) | _ \<Rightarrow> False) (snd s))"
  shows "\<exists>ms. condition_on df c test = Inr ms \<and>
              list_all (\<lambda>m. m ! i) ms = condition_holds df c i P \<and>
              (ms = []) = (\<not> has_column df c)"
proof (cases "column df c")
  case None
  then show ?thesis
    by (simp add: condition_on_def condition_holds_def cell_at_def has_column_iff)
next
  case (Some s)
  with assms(2) have "fst s = Object" by (simp add: is_text_def)
  note t = test [OF this]
  from rect_column [OF assms(1) Some] assms(3) have i: "i < length (snd s)" by simp
  with Some t show ?thesis
    by (simp add: condition_on_def condition_holds_def cell_at_def has_column_iff)
qed

text \<open>
  Claim C3 says that the location condition is substring containment of the requested
  location. The condition is a regular expression search: the requested location
  \<^verbatim>\<open>north|central\<close> retains a record located in \<^verbatim>\<open>Bangalore Central\<close>, whose location does
  not contain the requested string.
\<close>

theorem location_alternation_retained:
  "retained (conditions demo_lib sample_cleaned (map py_lower [''italian'']) ''medium''
             (py_lower ''north|central'')) (nrows sample_cleaned) 0 = Some True \<and>
   cell_at sample_cleaned ''location'' 0 = Some (Str ''Bangalore Central'') \<and>
   \<not> sublist (py_lower ''north|central'') (py_lower ''Bangalore Central'')"
  by code_simp

text \<open>
  Claim C3 as amended. For a non-empty list of cuisines and request strings that hold no
  character special in a regular expression, and a frame whose filter columns are text
  where present, a record is retained exactly when every condition whose column exists
  holds: some requested cuisine occurs in the lowercased primary cuisine, the lowercased
  cost category equals the lowercased budget, and the lowercased requested location occurs
  in the lowercased location; a missing cell fails a condition that applies. A frame with
  none of the three columns passes through whole.
\<close>

theorem filter_retains:
  assumes "wf_frame df"
      and "cuisines \<noteq> []"
      and "list_all plain (map py_lower cuisines)"
      and "plain (py_lower location)"
      and "is_text df ''primary_cuisine''"
      and "is_text df ''cost_category''"
      and "is_text df ''location''"
      and "i < nrows df"
  shows "retained (conditions L df (map py_lower cuisines) budget (py_lower location)) (nrows df) i =
           Some (condition_holds df ''primary_cuisine'' i
                   (\<lambda>t. list_ex (\<lambda>q. sublist (py_lower q) t) cuisines) \<and>
                 condition_holds df ''cost_category'' i (\<lambda>t. t = py_lower budget) \<and>
                 condition_holds df ''location'' i (\<lambda>t. sublist (py_lower location) t)) \<and>
         (\<not> has_column df ''primary_cuisine'' \<and> \<not> has_column df ''cost_category'' \<and>
          \<not> has_column df ''location'' \<longrightarrow>
            stored_filtered_df L df cuisines budget location = Inr df)"
proof -
  have r: "rect df" using assms(1) by (rule wf_frame_rect)
  have alt: "regex_search L (join ''|'' (map py_lower cuisines)) =
      Some (\<lambda>s. list_ex (\<lambda>q. sublist (py_lower q) s) cuisines)"
    using regex_search_alternation [OF _ assms(3), of L] assms(2)
    by (simp add: list_ex_iff)
  obtain m1 where m1: "condition_on df ''primary_cuisine''
        (lower_contains L (join ''|'' (map py_lower cuisines))) = Inr m1"
    and h1: "list_all (\<lambda>m. m ! i) m1 =
        condition_holds df ''primary_cuisine'' i (\<lambda>t. list_ex (\<lambda>q. sublist (py_lower q) t) cuisines)"
    and e1: "(m1 = []) = (\<not> has_column df ''primary_cuisine'')"
    using condition_on_mask [OF r assms(5) assms(8), of
        "lower_contains L (join ''|'' (map py_lower cuisines))"
        "\<lambda>t. list_ex (\<lambda>q. sublist (py_lower q) t) cuisines"]
      lower_contains_text [OF _ alt]
    by blast
  obtain m2 where m2: "condition_on df ''cost_category'' (lower_equals (py_lower budget)) = Inr m2"
    and h2: "list_all (\<lambda>m. m ! i) m2 =
        condition_holds df ''cost_category'' i (\<lambda>t. t = py_lower budget)"
    and e2: "(m2 = []) = (\<not> has_column df ''cost_category'')"
    using condition_on_mask [OF r assms(6) assms(8), of "lower_equals (py_lower budget)"
        "\<lambda>t. t = py_lower budget"]
      lower_equals_text [of _ "py_lower budget"]
    by blast
  obtain m3 where m3: "condition_on df ''location'' (lower_contains L (py_lower location)) = Inr m3"
    and h3: "list_all (\<lambda>m. m ! i) m3 =
        condition_holds df ''location'' i (\<lambda>t. sublist (py_lower location) t)"
    and e3: "(m3 = []) = (\<not> has_column df ''location'')"
    using condition_on_mask [OF r assms(7) assms(8), of "lower_contains L (py_lower location)"
        "\<lambda>t. sublist (py_lower location) t"]
      lower_contains_text [OF _ regex_search_plain [OF assms(4), of L]]
    by blast
  have c: "conditions L df (map py_lower cuisines) budget (py_lower location) = Inr (m1 @ m2 @ m3)"
    by (simp add: conditions_def and_then_def m1 m2 m3)
  have "retained (conditions L df (map py_lower cuisines) budget (py_lower location)) (nrows df) i =
      Some (list_all (\<lambda>m. m ! i) m1 \<and> list_all (\<lambda>m. m ! i) m2 \<and> list_all (\<lambda>m. m ! i) m3)"
    using assms(8) by (simp add: c retained_def kept_iff)
  moreover have "stored_filtered_df L df cuisines budget location = Inr df"
    if "\<not> has_column df ''primary_cuisine''" "\<not> has_column df ''cost_category''"
      "\<not> has_column df ''location''"
    using that e1 e2 e3 by (simp add: stored_filtered_df_def c select_rows_def)
  ultimately show ?thesis
    by (simp add: h1 h2 h3)
qed

theorem filter_retains_witness:
  "wf_frame sample_cleaned \<and> [''Indian'', ''italian''] \<noteq> [] \<and>
   list_all plain (map py_lower [''Indian'', ''italian'']) \<and> plain (py_lower ''Bangalore'') \<and>
   is_text sample_cleaned ''primary_cuisine'' \<and> is_text sample_cleaned ''cost_category'' \<and>
   is_text sample_cleaned ''location'' \<and> (1 :: nat) < nrows sample_cleaned \<and>
   retained (conditions demo_lib sample_cleaned (map py_lower [''Indian'', ''italian'']) ''Medium''
             (py_lower ''Bangalore'')) (nrows sample_cleaned) 1 = Some True \<and>
   retained (conditions demo_lib sample_cleaned (map py_lower [''Indian'', ''italian'']) ''Medium''
             (py_lower ''Bangalore'')) (nrows sample_cleaned) 2 = Some False \<and>
   \<not> has_column score_sample ''primary_cuisine'' \<and> \<not> has_column score_sample ''cost_category'' \<and>
   \<not> has_column score_sample ''location'' \<and>
   stored_filtered_df demo_lib score_sample [''Indian'', ''italian''] ''Medium'' ''Bangalore'' =
     Inr score_sample"
proof -
  have w: "wf_frame sample_cleaned" by code_simp
  have ne: "[''Indian'', ''italian''] \<noteq> []" by simp
  have p1: "list_all plain (map py_lower [''Indian'', ''italian''])" by code_simp
  have p2: "plain (py_lower ''Bangalore'')" by code_simp
  have t1: "is_text sample_cleaned ''primary_cuisine''" by code_simp
  have t2: "is_text sample_cleaned ''cost_category''" by code_simp
  have t3: "is_text sample_cleaned ''location''" by code_simp
  have n1: "(1 :: nat) < nrows sample_cleaned" and n0: "(2 :: nat) < nrows sample_cleaned"
    by (simp_all add: sample_cleaned_def)
  have v1: "condition_holds sample_cleaned ''primary_cuisine'' 1
              (\<lambda>t. list_ex (\<lambda>q. sublist (py_lower q) t) [''Indian'', ''italian'']) \<and>
            condition_holds sample_cleaned ''cost_category'' 1 (\<lambda>t. t = py_lower ''Medium'') \<and>
            condition_holds sample_cleaned ''location'' 1 (\<lambda>t. sublist (py_lower ''Bangalore'') t)"
    by code_simp
  have v0: "\<not> condition_holds sample_cleaned ''cost_category'' 2 (\<lambda>t. t = py_lower ''Medium'')"
    by code_simp
  have w2: "wf_frame score_sample" by code_simp
  have s1: "is_text score_sample ''primary_cuisine''" "is_text score_sample ''cost_category''"
    "is_text score_sample ''location''"
    by code_simp+
  have a: "\<not> has_column score_sample ''primary_cuisine''"
    "\<not> has_column score_sample ''cost_category''" "\<not> has_column score_sample ''location''"
    by code_simp+
  have m0: "(0 :: nat) < nrows score_sample" by (simp add: score_sample_def)
  from filter_retains [OF w ne p1 p2 t1 t2 t3 n1, of demo_lib "''Medium''"]
    filter_retains [OF w ne p1 p2 t1 t2 t3 n0, of demo_lib "''Medium''"]
    filter_retains [OF w2 ne p1 p2 s1 m0, of demo_lib "''Medium''"]
  show ?thesis
    using w ne p1 p2 t1 t2 t3 n1 v1 v0 a by simp
qed

subsection \<open>Re-ranking\<close>

lemma take_rows_all: "rect df \<Longrightarrow> take_rows [0..<nrows df] df = df"
proof -
  assume r: "rect df"
  have "map (\<lambda>e. (fst e, fst (snd e), map (\<lambda>i. snd (snd e) ! i) [0..<nrows df])) (cols df) = cols df"
  proof (rule map_idI)
    fix e assume "e \<in> set (cols df)"
    with r have "length (snd (snd e)) = nrows df" by (simp add: rect_def list_all_iff)
    then have "map (\<lambda>i. snd (snd e) ! i) [0..<nrows df] = snd (snd e)"
      by (metis map_nth)
    then show "(fst e, fst (snd e), map (\<lambda>i. snd (snd e) ! i) [0..<nrows df]) = e"
      by simp
  qed
  then show ?thesis by (simp add: take_rows_def)
qed

lemma kept_all:
  assumes "list_all (\<lambda>m. list_all (\<lambda>i. m ! i) [0..<n]) conds"
  shows "kept conds n = [0..<n]"
proof -
  have "foldl (\<lambda>ps m. filter (\<lambda>i. m ! i) ps) [0..<n] cs = [0..<n]"
    if "list_all (\<lambda>m. list_all (\<lambda>i. m ! i) [0..<n]) cs" for cs
    using that
  proof (induction cs)
    case Nil
    then show ?case by simp
  next
    case (Cons m cs)
    then have "filter (\<lambda>i. m ! i) [0..<n] = [0..<n]"
      by (simp add: list_all_iff filter_id_conv)
    with Cons show ?case by simp
  qed
  with assms show ?thesis by (simp add: kept_def)
qed

lemma kept_bound: "set (kept conds n) \<subseteq> {..<n}"
  by (auto simp: kept_iff)

lemma map_nth_map: "list_all (\<lambda>i. i < length vs) ps \<Longrightarrow>
  map (\<lambda>i. map f vs ! i) ps = map f (map (\<lambda>i. vs ! i) ps)"
  by (simp add: list_all_iff)

lemma lower_contains_taken:
  assumes "list_all (\<lambda>i. i < length vs) ps"
  shows "lower_contains L pat (dt, map (\<lambda>i. vs ! i) ps) =
           map_sum id (\<lambda>m. map (\<lambda>i. m ! i) ps) (lower_contains L pat (dt, vs))"
  using assms
  by (auto simp: lower_contains_def str_map_def str_contains_def list_all_iff split: option.splits)

lemma lower_equals_taken:
  assumes "list_all (\<lambda>i. i < length vs) ps"
  shows "lower_equals v (dt, map (\<lambda>i. vs ! i) ps) =
           map_sum id (\<lambda>m. map (\<lambda>i. m ! i) ps) (lower_equals v (dt, vs))"
  using assms
  by (auto simp: lower_equals_def str_map_def list_all_iff)

lemma condition_on_taken:
  assumes "rect df" and "set ps \<subseteq> {..<nrows df}"
      and test: "\<And>dt vs. list_all (\<lambda>i. i < length vs) ps \<Longrightarrow>
                 test (dt, map (\<lambda>i. vs ! i) ps) = map_sum id (\<lambda>m. map (\<lambda>i. m ! i) ps) (test (dt, vs))"
  shows "condition_on (take_rows ps df) c test =
           map_sum id (map (\<lambda>m. map (\<lambda>i. m ! i) ps)) (condition_on df c test)"
proof (cases "column df c")
  case None
  then show ?thesis by (simp add: condition_on_def column_take_rows)
next
  case (Some s)
  from rect_column [OF assms(1) Some] assms(2) have "list_all (\<lambda>i. i < length (snd s)) ps"
    by (auto simp: list_all_iff)
  from test [OF this, of "fst s"] Some show ?thesis
    by (cases "test s") (simp_all add: condition_on_def column_take_rows)
qed

lemma and_then_map:
  "and_then (map_sum id (map f) a) (map_sum id (map f) b) = map_sum id (map f) (and_then a b)"
  by (cases a; cases b) (simp_all add: and_then_def)

lemma conditions_taken:
  assumes "rect df" and "set ps \<subseteq> {..<nrows df}"
  shows "conditions L (take_rows ps df) cs b loc =
           map_sum id (map (\<lambda>m. map (\<lambda>i. m ! i) ps)) (conditions L df cs b loc)"
  by (simp add: conditions_def condition_on_taken [OF assms] lower_contains_taken
      lower_equals_taken and_then_map)


lemma conditions_cong:
  assumes "column d1 ''primary_cuisine'' = column d2 ''primary_cuisine''"
      and "column d1 ''cost_category'' = column d2 ''cost_category''"
      and "column d1 ''location'' = column d2 ''location''"
  shows "conditions L d1 cs b loc = conditions L d2 cs b loc"
  using assms by (simp add: conditions_def condition_on_def)

lemma weighted_score_cong:
  assumes "column d1 ''normalized_rating'' = column d2 ''normalized_rating''"
      and "column d1 ''votes'' = column d2 ''votes''"
  shows "weighted_score d1 w1 w2 = weighted_score d2 w1 w2"
  unfolding weighted_score_def assms by (rule refl)

lemma set_column_twice: "set_column (set_column df c s) c s = set_column df c s"
  by (simp add: set_column_def)

lemma add_score_again:
  assumes "add_score strategy df = Inr scored"
  shows "add_score strategy scored = Inr scored"
proof -
  from assms obtain w1 w2 s where s: "weighted_score df w1 w2 = Inr s"
    and sc: "scored = set_column df ''score'' s"
    and eq: "\<And>d. add_score strategy d =
               (case weighted_score d w1 w2 of Inl e \<Rightarrow> Inl e | Inr t \<Rightarrow> Inr (set_column d ''score'' t))"
    by (cases "strategy = ''A: Rating-heavy''") (auto simp: add_score_def split: sum.splits)
  have "weighted_score scored w1 w2 = weighted_score df w1 w2"
    by (rule weighted_score_cong) (simp_all add: sc column_set_column)
  with s sc show ?thesis
    by (simp add: eq set_column_twice)
qed

lemma rank_scored:
  assumes "rank L f cs b strategy n = Inr (scored, t)"
  shows "add_score strategy f = Inr scored"
  using assms by (auto simp: rank_def split: sum.splits)

lemma rank_again:
  assumes "rank L f cs b strategy n = Inr (scored, t)"
  shows "rank L scored cs b strategy n = Inr (scored, t)"
  using assms add_score_again [OF rank_scored [OF assms]]
  by (auto simp: rank_def split: sum.splits)

lemma filter_and_rank_Some:
  "filter_and_rank_restaurants L (Some d) cuisines budget location strategy top_n =
     (case conditions L d (map py_lower cuisines) budget (py_lower location) of
        Inl e \<Rightarrow> Inl e
      | Inr conds \<Rightarrow>
          (case rank L (select_rows conds d) (map py_lower cuisines) budget strategy top_n of
             Inl e \<Rightarrow> Inl e
           | Inr (scored, t) \<Rightarrow> Inr (Some (if conds \<noteq> [] then d else scored), t)))"
  by (simp add: filter_and_rank_restaurants_def Let_def)

lemma rerank_function:
  assumes wf: "wf_frame df"
      and call: "filter_and_rank_restaurants L (Some df) cuisines budget location strategy top_n =
                   Inr (Some df', top_df)"
      and stored: "stored_filtered_df L df' cuisines budget location = Inr fdf"
  shows "filter_and_rank_restaurants L (Some fdf) cuisines budget location strategy top_n =
           Inr (Some fdf, top_df)"
proof -
  let ?cs = "map py_lower cuisines"
  let ?loc = "py_lower location"
  have r: "rect df" using wf by (rule wf_frame_rect)
  from call obtain conds scored where
    conds: "conditions L df ?cs budget ?loc = Inr conds"
    and rk: "rank L (select_rows conds df) ?cs budget strategy top_n = Inr (scored, top_df)"
    and df': "df' = (if conds \<noteq> [] then df else scored)"
    by (auto simp: filter_and_rank_Some split: sum.splits)
  show ?thesis
  proof (cases "conds = []")
    case True
    with df' have d: "df' = scored" by simp
    from rk True have rk0: "rank L df ?cs budget strategy top_n = Inr (scored, top_df)"
      by (simp add: select_rows_def)
    from rank_scored [OF rk0] obtain s where sc: "scored = set_column df ''score'' s"
      by (auto simp: add_score_def split: if_splits sum.splits)
    have c2: "conditions L scored ?cs budget ?loc = Inr []"
      unfolding conds [symmetric] True [symmetric]
      by (rule conditions_cong) (simp_all add: sc column_set_column)
    with stored d have f: "fdf = scored"
      by (simp add: stored_filtered_df_def select_rows_def)
    from rank_again [OF rk0] c2 show ?thesis
      by (simp add: filter_and_rank_Some f select_rows_def)
  next
    case False
    let ?ps = "kept conds (nrows df)"
    from False df' have d: "df' = df" by simp
    with stored conds False have f: "fdf = take_rows ?ps df"
      by (simp add: stored_filtered_df_def select_rows_def)
    have ps: "set ?ps \<subseteq> {..<nrows df}" by (rule kept_bound)
    let ?conds' = "map (\<lambda>m. map (\<lambda>i. m ! i) ?ps) conds"
    have c2: "conditions L fdf ?cs budget ?loc = Inr ?conds'"
      by (simp add: f conditions_taken [OF r ps] conds)
    have ne: "?conds' \<noteq> []" using False by simp
    have all: "list_all (\<lambda>m. list_all (\<lambda>i. m ! i) [0..<length ?ps]) ?conds'"
    proof -
      have "m ! (?ps ! j)" if "m \<in> set conds" and "j < length ?ps" for m j
      proof -
        from that(2) have "?ps ! j \<in> set ?ps" by simp
        with that(1) show ?thesis by (auto simp: kept_iff list_all_iff)
      qed
      then show ?thesis by (auto simp: list_all_iff)
    qed
    have n: "nrows fdf = length ?ps" by (simp add: f nrows_take_rows)
    have "select_rows ?conds' fdf = take_rows [0..<nrows fdf] fdf"
      using ne kept_all [OF all] by (simp add: select_rows_def n)
    also have "\<dots> = fdf"
      by (rule take_rows_all) (simp add: f rect_take_rows)
    finally have sel: "select_rows ?conds' fdf = fdf" .
    from rk False f have "rank L fdf ?cs budget strategy top_n = Inr (scored, top_df)"
      by (simp add: select_rows_def)
    with c2 sel ne show ?thesis
      by (simp add: filter_and_rank_Some del: map_is_Nil_conv)
  qed
qed

text \<open>
  Claim C2. Let a call of \<^verbatim>\<open>filter_and_rank_restaurants\<close> on a well-formed frame return
  its top rows, and let \<^verbatim>\<open>main\<close> store the filtered frame it computes after that call.
  Calling the function again on the stored frame, with the same cuisines, budget, location,
  strategy and number of rows, returns the same frame of top rows: the same records in the
  same order, with the same scores and explanations. With the ten rows \<^verbatim>\<open>main\<close> asks for,
  the re-rank branch of \<^verbatim>\<open>main\<close> leaves the stored recommendations as they are.
\<close>

theorem rerank_same_strategy:
  assumes "wf_frame df"
      and "filter_and_rank_restaurants L (Some df) cuisines budget location strategy top_n =
             Inr (Some df', top_df)"
      and "stored_filtered_df L df' cuisines budget location = Inr fdf"
  shows "filter_and_rank_restaurants L (Some fdf) cuisines budget location strategy top_n =
           Inr (Some fdf, top_df) \<and>
         returned_frame
           (filter_and_rank_restaurants L (Some fdf) cuisines budget location strategy top_n) =
         returned_frame
           (filter_and_rank_restaurants L (Some df) cuisines budget location strategy top_n) \<and>
         (top_n = 10 \<longrightarrow>
            rerank L \<lparr>recommendations = Some top_df,
                      preferences = Some (cuisines, budget, location, strategy),
                      filtered_df = Some fdf\<rparr> strategy =
              Inr \<lparr>recommendations = Some top_df,
                   preferences = Some (cuisines, budget, location, strategy),
                   filtered_df = Some fdf\<rparr>)"
proof -
  note again = rerank_function [OF assms]
  have "rerank L \<lparr>recommendations = Some top_df,
                  preferences = Some (cuisines, budget, location, strategy),
                  filtered_df = Some fdf\<rparr> strategy =
          Inr \<lparr>recommendations = Some top_df,
               preferences = Some (cuisines, budget, location, strategy),
               filtered_df = Some fdf\<rparr>"
    if "top_n = 10"
    using again that by (simp add: rerank_def)
  with again assms(2) show ?thesis
    by (simp add: returned_frame_def)
qed

theorem rerank_same_strategy_witness:
  "wf_frame sample_cleaned \<and>
   clean demo_lib sample_source = Inr sample_cleaned \<and>
   filter_and_rank_restaurants demo_lib (Some sample_cleaned) [''Indian'', ''italian''] ''Medium''
     ''Bangalore'' ''A: Rating-heavy'' 10 = Inr (Some sample_cleaned, sample_top) \<and>
   stored_filtered_df demo_lib sample_cleaned [''Indian'', ''italian''] ''Medium'' ''Bangalore'' =
     Inr sample_filtered \<and>
   filter_and_rank_restaurants demo_lib (Some sample_filtered) [''Indian'', ''italian''] ''Medium''
     ''Bangalore'' ''A: Rating-heavy'' 10 = Inr (Some sample_filtered, sample_top) \<and>
   rerank demo_lib
     \<lparr>recommendations = Some sample_top,
      preferences = Some ([''Indian'', ''italian''], ''Medium'', ''Bangalore'', ''A: Rating-heavy''),
      filtered_df = Some sample_filtered\<rparr> ''A: Rating-heavy'' =
     Inr \<lparr>recommendations = Some sample_top,
          preferences = Some ([''Indian'', ''italian''], ''Medium'', ''Bangalore'', ''A: Rating-heavy''),
          filtered_df = Some sample_filtered\<rparr>"
proof -
  have w: "wf_frame sample_cleaned" by code_simp
  note c = clean_sample_source
  have call: "filter_and_rank_restaurants demo_lib (Some sample_cleaned) [''Indian'', ''italian'']
      ''Medium'' ''Bangalore'' ''A: Rating-heavy'' 10 = Inr (Some sample_cleaned, sample_top)"
    by code_simp
  have st: "stored_filtered_df demo_lib sample_cleaned [''Indian'', ''italian''] ''Medium''
      ''Bangalore'' = Inr sample_filtered"
    by code_simp
  from rerank_same_strategy [OF w call st] w c call st show ?thesis
    by simp
qed

end
